theory Spec2Isabelle
  imports Main
begin

section \<open>Event planner: the action layer over the Events, EventTasks and EventGuests tables\<close>

text \<open>
  The development embeds \<^verbatim>\<open>src/db/tables.ts\<close> (the three tables) and
  \<^verbatim>\<open>src/src/actions/index.ts\<close> (the nine actions of \<^verbatim>\<open>server\<close>).

  Conventions of the embedding:
  \<^item> a table is the list of its rows, in insertion order; a query
    \<^verbatim>\<open>db.select().from(T).where(c)\<close> is a filter, and \<^verbatim>\<open>(...)[0]\<close> is its first row
    or \<^verbatim>\<open>undefined\<close>;
  \<^item> an optional column, and a JavaScript value that may be \<^verbatim>\<open>undefined\<close> or
    \<^verbatim>\<open>null\<close>, is an \<open>option\<close>;
  \<^item> a thrown \<^verbatim>\<open>ActionError\<close> is the left summand of the result, and every action
    returns its result together with the store it leaves behind, so that a throw after a
    mutation would keep the mutation;
  \<^item> the tables keep the constraints that \<^verbatim>\<open>tables.ts\<close> declares: \<^verbatim>\<open>id\<close> is the
    primary key of each table, and \<^verbatim>\<open>eventId\<close> of a task or a guest references the
    \<^verbatim>\<open>id\<close> of an event. A statement that would break one of them throws and changes
    nothing;
  \<^item> the input of an action is the JSON object of the request, restricted to string
    members: a finite map from member names to strings. The action's zod schema turns it
    into the typed input of the handler or rejects it, before the handler runs;
  \<^item> what the platform supplies during one call is a record \<open>runtime\<close>: the format
    checks of zod, \<^verbatim>\<open>new Date(s)\<close>, the clock \<^verbatim>\<open>new Date()\<close> and
    \<^verbatim>\<open>crypto.randomUUID()\<close>.
\<close>

subsection \<open>Rows of the three tables\<close>

type_synonym json = "string \<rightharpoonup> string"

text \<open>A \<^verbatim>\<open>Date\<close>, as its time value in milliseconds.\<close>

type_synonym date = int

record event =
  event_id :: string
  event_ownerUserId :: string
  event_title :: string
  event_description :: "string option"
  event_startDateTime :: "date option"
  event_endDateTime :: "date option"
  event_timeZone :: "string option"
  event_locationName :: "string option"
  event_locationAddress :: "string option"
  event_locationMapLink :: "string option"
  event_status :: "string option"
  event_createdAt :: date
  event_updatedAt :: date

record task =
  task_id :: string
  task_eventId :: string
  task_userId :: "string option"
  task_title :: string
  task_description :: "string option"
  task_dueDate :: "date option"
  task_status :: "string option"
  task_priority :: "string option"
  task_createdAt :: date
  task_updatedAt :: date

record guest =
  guest_id :: string
  guest_eventId :: string
  guest_name :: string
  guest_email :: "string option"
  guest_phone :: "string option"
  guest_rsvpStatus :: "string option"
  guest_notes :: "string option"
  guest_invitedAt :: "date option"
  guest_respondedAt :: "date option"
  guest_createdAt :: date

record store =
  Events :: "event list"
  EventTasks :: "task list"
  EventGuests :: "guest list"

subsection \<open>The query builder\<close>

definition select_from_where :: "('r \<Rightarrow> bool) \<Rightarrow> 'r list \<Rightarrow> 'r list" where
  "select_from_where c rows = filter c rows"

text \<open>\<^verbatim>\<open>rows[0]\<close>: the first row, \<^verbatim>\<open>undefined\<close> on an empty result.\<close>

definition first :: "'r list \<Rightarrow> 'r option" where
  "first rows = (case rows of [] \<Rightarrow> None | r # _ \<Rightarrow> Some r)"

definition update_set_where :: "('r \<Rightarrow> 'r) \<Rightarrow> ('r \<Rightarrow> bool) \<Rightarrow> 'r list \<Rightarrow> 'r list" where
  "update_set_where s c rows = map (\<lambda>r. if c r then s r else r) rows"

definition delete_where :: "('r \<Rightarrow> bool) \<Rightarrow> 'r list \<Rightarrow> 'r list" where
  "delete_where c rows = filter (\<lambda>r. \<not> c r) rows"

subsection \<open>Partial objects: spreading and \<^verbatim>\<open>set\<close>\<close>

text \<open>
  A member of a \<^verbatim>\<open>Partial<Row>\<close> object literal is in one of three states: the key is
  absent, the key is present with the value \<^verbatim>\<open>undefined\<close>, or it is present with a
  value. The two consumers of such an object treat the middle state differently:
  \<^item> the spread \<^verbatim>\<open>{ ...existing, ...updates }\<close> copies every own key of
    \<^verbatim>\<open>updates\<close>, so a key that is present with \<^verbatim>\<open>undefined\<close> overrides the member
    of \<^verbatim>\<open>existing\<close>;
  \<^item> \<^verbatim>\<open>db.update(T).set(updates)\<close> of the query builder (Drizzle, which
    \<^verbatim>\<open>astro:db\<close> re-exports) ignores the members whose value is \<^verbatim>\<open>undefined\<close>:
    the column is written only for a defined value, and \<^verbatim>\<open>null\<close> is what clears it.
\<close>

datatype 'a partial = Absent | Undefined | Defined 'a

text \<open>\<^verbatim>\<open>if (v !== undefined) updates.k = v\<close>\<close>

definition when_defined :: "'a option \<Rightarrow> 'a partial" where
  "when_defined v = (case v of None \<Rightarrow> Absent | Some x \<Rightarrow> Defined x)"

text \<open>\<^verbatim>\<open>k: v\<close> in an object literal, or \<^verbatim>\<open>updates.k = v\<close>, with \<^verbatim>\<open>v\<close> possibly undefined.\<close>

definition assigned :: "'a option \<Rightarrow> 'a partial" where
  "assigned v = (case v of None \<Rightarrow> Undefined | Some x \<Rightarrow> Defined x)"

definition spread_col :: "'a option \<Rightarrow> 'a partial \<Rightarrow> 'a option" where
  "spread_col old u = (case u of Absent \<Rightarrow> old | Undefined \<Rightarrow> None | Defined x \<Rightarrow> Some x)"

definition set_col :: "'a partial \<Rightarrow> 'a option \<Rightarrow> 'a option" where
  "set_col u old = (case u of Absent \<Rightarrow> old | Undefined \<Rightarrow> old | Defined x \<Rightarrow> Some x)"

text \<open>A column that is not optional: the key is absent or carries a value.\<close>

definition override :: "'a \<Rightarrow> 'a option \<Rightarrow> 'a" where
  "override old u = (case u of None \<Rightarrow> old | Some x \<Rightarrow> x)"

record event_updates =
  eu_title :: "string option"
  eu_description :: "string partial"
  eu_startDateTime :: "date partial"
  eu_endDateTime :: "date partial"
  eu_timeZone :: "string partial"
  eu_locationName :: "string partial"
  eu_locationAddress :: "string partial"
  eu_locationMapLink :: "string partial"
  eu_status :: "string partial"
  eu_updatedAt :: "date option"

record task_updates =
  tu_title :: "string option"
  tu_description :: "string partial"
  tu_dueDate :: "date partial"
  tu_status :: "string partial"
  tu_priority :: "string partial"
  tu_userId :: "string partial"
  tu_updatedAt :: "date option"

record guest_updates =
  gu_name :: "string option"
  gu_email :: "string partial"
  gu_phone :: "string partial"
  gu_rsvpStatus :: "string partial"
  gu_notes :: "string partial"
  gu_invitedAt :: "date partial"
  gu_respondedAt :: "date partial"

definition spread_event :: "event \<Rightarrow> event_updates \<Rightarrow> event" where
  "spread_event e u = e\<lparr>
     event_title := override (event_title e) (eu_title u),
     event_description := spread_col (event_description e) (eu_description u),
     event_startDateTime := spread_col (event_startDateTime e) (eu_startDateTime u),
     event_endDateTime := spread_col (event_endDateTime e) (eu_endDateTime u),
     event_timeZone := spread_col (event_timeZone e) (eu_timeZone u),
     event_locationName := spread_col (event_locationName e) (eu_locationName u),
     event_locationAddress := spread_col (event_locationAddress e) (eu_locationAddress u),
     event_locationMapLink := spread_col (event_locationMapLink e) (eu_locationMapLink u),
     event_status := spread_col (event_status e) (eu_status u),
     event_updatedAt := override (event_updatedAt e) (eu_updatedAt u)\<rparr>"

definition set_event :: "event_updates \<Rightarrow> event \<Rightarrow> event" where
  "set_event u e = e\<lparr>
     event_title := override (event_title e) (eu_title u),
     event_description := set_col (eu_description u) (event_description e),
     event_startDateTime := set_col (eu_startDateTime u) (event_startDateTime e),
     event_endDateTime := set_col (eu_endDateTime u) (event_endDateTime e),
     event_timeZone := set_col (eu_timeZone u) (event_timeZone e),
     event_locationName := set_col (eu_locationName u) (event_locationName e),
     event_locationAddress := set_col (eu_locationAddress u) (event_locationAddress e),
     event_locationMapLink := set_col (eu_locationMapLink u) (event_locationMapLink e),
     event_status := set_col (eu_status u) (event_status e),
     event_updatedAt := override (event_updatedAt e) (eu_updatedAt u)\<rparr>"

definition spread_task :: "task \<Rightarrow> task_updates \<Rightarrow> task" where
  "spread_task t u = t\<lparr>
     task_title := override (task_title t) (tu_title u),
     task_description := spread_col (task_description t) (tu_description u),
     task_dueDate := spread_col (task_dueDate t) (tu_dueDate u),
     task_status := spread_col (task_status t) (tu_status u),
     task_priority := spread_col (task_priority t) (tu_priority u),
     task_userId := spread_col (task_userId t) (tu_userId u),
     task_updatedAt := override (task_updatedAt t) (tu_updatedAt u)\<rparr>"

definition set_task :: "task_updates \<Rightarrow> task \<Rightarrow> task" where
  "set_task u t = t\<lparr>
     task_title := override (task_title t) (tu_title u),
     task_description := set_col (tu_description u) (task_description t),
     task_dueDate := set_col (tu_dueDate u) (task_dueDate t),
     task_status := set_col (tu_status u) (task_status t),
     task_priority := set_col (tu_priority u) (task_priority t),
     task_userId := set_col (tu_userId u) (task_userId t),
     task_updatedAt := override (task_updatedAt t) (tu_updatedAt u)\<rparr>"

definition spread_guest :: "guest \<Rightarrow> guest_updates \<Rightarrow> guest" where
  "spread_guest g u = g\<lparr>
     guest_name := override (guest_name g) (gu_name u),
     guest_email := spread_col (guest_email g) (gu_email u),
     guest_phone := spread_col (guest_phone g) (gu_phone u),
     guest_rsvpStatus := spread_col (guest_rsvpStatus g) (gu_rsvpStatus u),
     guest_notes := spread_col (guest_notes g) (gu_notes u),
     guest_invitedAt := spread_col (guest_invitedAt g) (gu_invitedAt u),
     guest_respondedAt := spread_col (guest_respondedAt g) (gu_respondedAt u)\<rparr>"

definition set_guest :: "guest_updates \<Rightarrow> guest \<Rightarrow> guest" where
  "set_guest u g = g\<lparr>
     guest_name := override (guest_name g) (gu_name u),
     guest_email := set_col (gu_email u) (guest_email g),
     guest_phone := set_col (gu_phone u) (guest_phone g),
     guest_rsvpStatus := set_col (gu_rsvpStatus u) (guest_rsvpStatus g),
     guest_notes := set_col (gu_notes u) (guest_notes g),
     guest_invitedAt := set_col (gu_invitedAt u) (guest_invitedAt g),
     guest_respondedAt := set_col (gu_respondedAt u) (guest_respondedAt g)\<rparr>"

subsection \<open>Errors, the request context and the platform\<close>

text \<open>
  The three codes the handlers throw; \<open>BAD_REQUEST\<close>, the input error with which
  \<^verbatim>\<open>defineAction\<close> rejects an input that its schema does not accept (the
  specification's ValidationError); and \<open>INTERNAL_SERVER_ERROR\<close>, with which an action
  ends when anything else is thrown in its handler, here the database error of a
  violated constraint.
\<close>

datatype error = UNAUTHORIZED | NOT_FOUND | FORBIDDEN | BAD_REQUEST | INTERNAL_SERVER_ERROR

record user =
  user_id :: string

record api_context =
  locals_user :: "user option"

record runtime =
  is_datetime :: "string \<Rightarrow> bool"
  is_url :: "string \<Rightarrow> bool"
  is_email :: "string \<Rightarrow> bool"
  new_Date :: "string \<Rightarrow> date"
  now :: date
  randomUUID :: string

text \<open>
  A step of a handler that may throw: on an error the handler ends with the store as it
  is at that point; otherwise it goes on with the value.
\<close>

definition or_throw :: "error + 'a \<Rightarrow> store \<Rightarrow> ('a \<Rightarrow> (error + 'b) \<times> store) \<Rightarrow> (error + 'b) \<times> store" where
  "or_throw r db k = (case r of Inl e \<Rightarrow> (Inl e, db) | Inr x \<Rightarrow> k x)"

subsection \<open>Primary and foreign keys\<close>

text \<open>
  \<^verbatim>\<open>db.insert(T).values(row)\<close> on a table whose primary key is the column \<open>pk\<close>: a
  row whose key is already in the table is refused.
\<close>

definition insert_values :: "('r \<Rightarrow> string) \<Rightarrow> 'r \<Rightarrow> 'r list \<Rightarrow> error + 'r list" where
  "insert_values pk r rows =
     (if pk r \<in> set (map pk rows) then Inl INTERNAL_SERVER_ERROR else Inr (rows @ [r]))"

text \<open>\<^verbatim>\<open>references: () => Events.columns.id\<close>: the parent row must exist.\<close>

definition references_Events :: "string \<Rightarrow> store \<Rightarrow> bool" where
  "references_Events eventId db = (eventId \<in> set (map event_id (Events db)))"

text \<open>An event is referenced when some task or guest names it as its \<open>eventId\<close>.\<close>

definition referenced :: "string \<Rightarrow> store \<Rightarrow> bool" where
  "referenced eventId db =
     (eventId \<in> set (map task_eventId (EventTasks db))
      \<or> eventId \<in> set (map guest_eventId (EventGuests db)))"

definition insert_Events :: "event \<Rightarrow> store \<Rightarrow> error + store" where
  "insert_Events e db =
     (case insert_values event_id e (Events db) of
        Inl x \<Rightarrow> Inl x
      | Inr rows \<Rightarrow> Inr (db\<lparr>Events := rows\<rparr>))"

definition insert_EventTasks :: "task \<Rightarrow> store \<Rightarrow> error + store" where
  "insert_EventTasks t db =
     (if \<not> references_Events (task_eventId t) db then Inl INTERNAL_SERVER_ERROR
      else case insert_values task_id t (EventTasks db) of
             Inl x \<Rightarrow> Inl x
           | Inr rows \<Rightarrow> Inr (db\<lparr>EventTasks := rows\<rparr>))"

definition insert_EventGuests :: "guest \<Rightarrow> store \<Rightarrow> error + store" where
  "insert_EventGuests g db =
     (if \<not> references_Events (guest_eventId g) db then Inl INTERNAL_SERVER_ERROR
      else case insert_values guest_id g (EventGuests db) of
             Inl x \<Rightarrow> Inl x
           | Inr rows \<Rightarrow> Inr (db\<lparr>EventGuests := rows\<rparr>))"

text \<open>
  \<^verbatim>\<open>db.delete(Events).where(c)\<close>: the statement is refused while a row it would delete
  is still referenced by a task or a guest (the tables declare no cascade).
\<close>

definition delete_Events :: "(event \<Rightarrow> bool) \<Rightarrow> store \<Rightarrow> error + store" where
  "delete_Events c db =
     (if list_ex (\<lambda>e. c e \<and> referenced (event_id e) db) (Events db)
      then Inl INTERNAL_SERVER_ERROR
      else Inr (db\<lparr>Events := delete_where c (Events db)\<rparr>))"

text \<open>\<^verbatim>\<open>defineAction({ input, handler })\<close>: the schema first, then the handler on what it yields.\<close>

definition defineAction ::
  "('j \<Rightarrow> error + 'i) \<Rightarrow> ('i \<Rightarrow> api_context \<Rightarrow> store \<Rightarrow> (error + 'o) \<times> store) \<Rightarrow>
   'j \<Rightarrow> api_context \<Rightarrow> store \<Rightarrow> (error + 'o) \<times> store" where
  "defineAction schema handler raw ctx db = or_throw (schema raw) db (\<lambda>input. handler input ctx db)"

definition requireUser :: "api_context \<Rightarrow> error + user" where
  "requireUser ctx = (case locals_user ctx of None \<Rightarrow> Inl UNAUTHORIZED | Some u \<Rightarrow> Inr u)"

text \<open>\<^verbatim>\<open>value ? new Date(value) : undefined\<close>: the empty string is falsy.\<close>

definition parseOptionalDate :: "runtime \<Rightarrow> string option \<Rightarrow> date option" where
  "parseOptionalDate rt v =
     (case v of None \<Rightarrow> None | Some s \<Rightarrow> if s = [] then None else Some (new_Date rt s))"

definition getEventForUser :: "string \<Rightarrow> string \<Rightarrow> store \<Rightarrow> error + event" where
  "getEventForUser userId eventId db =
     (case first (select_from_where (\<lambda>e. event_id e = eventId) (Events db)) of
        None \<Rightarrow> Inl NOT_FOUND
      | Some e \<Rightarrow> if event_ownerUserId e \<noteq> userId then Inl FORBIDDEN else Inr e)"

definition EVENT_STATUSES :: "string list" where
  "EVENT_STATUSES = [''planning'', ''confirmed'', ''done'', ''cancelled'']"

definition TASK_STATUSES :: "string list" where
  "TASK_STATUSES = [''todo'', ''in-progress'', ''done'']"

definition TASK_PRIORITIES :: "string list" where
  "TASK_PRIORITIES = [''low'', ''medium'', ''high'']"

definition RSVP_STATUSES :: "string list" where
  "RSVP_STATUSES = [''invited'', ''going'', ''maybe'', ''declined'']"

subsection \<open>The zod schemas\<close>

text \<open>
  \<open>z_datetime\<close>, \<open>z_url\<close> and \<open>z_email\<close> leave the formats to the platform; the one
  fact written out is that an ISO 8601 timestamp is not the empty string.
\<close>

definition z_min1 :: "string \<Rightarrow> bool" where
  "z_min1 s = (1 \<le> length s)"

definition z_datetime :: "runtime \<Rightarrow> string \<Rightarrow> bool" where
  "z_datetime rt s = (s \<noteq> [] \<and> is_datetime rt s)"

definition z_url :: "runtime \<Rightarrow> string \<Rightarrow> bool" where
  "z_url rt s = is_url rt s"

definition z_email :: "runtime \<Rightarrow> string \<Rightarrow> bool" where
  "z_email rt s = is_email rt s"

definition z_enum :: "string list \<Rightarrow> string \<Rightarrow> bool" where
  "z_enum vs s = (s \<in> set vs)"

definition z_optional :: "(string \<Rightarrow> bool) \<Rightarrow> string option \<Rightarrow> bool" where
  "z_optional p v = (case v of None \<Rightarrow> True | Some s \<Rightarrow> p s)"

definition z_default :: "string \<Rightarrow> string option \<Rightarrow> string" where
  "z_default d v = (case v of None \<Rightarrow> d | Some s \<Rightarrow> s)"

text \<open>\<^verbatim>\<open>a ?? b\<close>\<close>

definition nullish :: "'a option \<Rightarrow> 'a option \<Rightarrow> 'a option" where
  "nullish a b = (case a of None \<Rightarrow> b | Some x \<Rightarrow> Some x)"

record createEvent_input =
  ce_title :: string
  ce_description :: "string option"
  ce_startDateTime :: "string option"
  ce_endDateTime :: "string option"
  ce_timeZone :: "string option"
  ce_locationName :: "string option"
  ce_locationAddress :: "string option"
  ce_locationMapLink :: "string option"
  ce_status :: "string option"

text \<open>
  \<open>ce_status\<close> is an \<open>option\<close> because the handler still guards it with \<^verbatim>\<open>??\<close>;
  the schema's \<^verbatim>\<open>.default("planning")\<close> always fills it.
\<close>

definition createEvent_schema :: "runtime \<Rightarrow> json \<Rightarrow> error + createEvent_input" where
  "createEvent_schema rt raw =
     (let status = z_default ''planning'' (raw ''status'') in
      case raw ''title'' of
        None \<Rightarrow> Inl BAD_REQUEST
      | Some title \<Rightarrow>
          if z_min1 title
             \<and> z_optional (z_datetime rt) (raw ''startDateTime'')
             \<and> z_optional (z_datetime rt) (raw ''endDateTime'')
             \<and> z_optional (z_url rt) (raw ''locationMapLink'')
             \<and> z_enum EVENT_STATUSES status
          then Inr \<lparr>ce_title = title,
                    ce_description = raw ''description'',
                    ce_startDateTime = raw ''startDateTime'',
                    ce_endDateTime = raw ''endDateTime'',
                    ce_timeZone = raw ''timeZone'',
                    ce_locationName = raw ''locationName'',
                    ce_locationAddress = raw ''locationAddress'',
                    ce_locationMapLink = raw ''locationMapLink'',
                    ce_status = Some status\<rparr>
          else Inl BAD_REQUEST)"

record updateEvent_input =
  ue_id :: string
  ue_title :: "string option"
  ue_description :: "string option"
  ue_startDateTime :: "string option"
  ue_endDateTime :: "string option"
  ue_timeZone :: "string option"
  ue_locationName :: "string option"
  ue_locationAddress :: "string option"
  ue_locationMapLink :: "string option"
  ue_status :: "string option"

text \<open>The \<^verbatim>\<open>.refine\<close> of \<^verbatim>\<open>updateEvent\<close>: some updatable member is defined.\<close>

definition updateEvent_refine :: "updateEvent_input \<Rightarrow> bool" where
  "updateEvent_refine v =
     (ue_title v \<noteq> None \<or> ue_description v \<noteq> None \<or> ue_startDateTime v \<noteq> None
      \<or> ue_endDateTime v \<noteq> None \<or> ue_timeZone v \<noteq> None \<or> ue_locationName v \<noteq> None
      \<or> ue_locationAddress v \<noteq> None \<or> ue_locationMapLink v \<noteq> None \<or> ue_status v \<noteq> None)"

definition updateEvent_schema :: "runtime \<Rightarrow> json \<Rightarrow> error + updateEvent_input" where
  "updateEvent_schema rt raw =
     (case raw ''id'' of
        None \<Rightarrow> Inl BAD_REQUEST
      | Some i \<Rightarrow>
          let v = \<lparr>ue_id = i,
                   ue_title = raw ''title'',
                   ue_description = raw ''description'',
                   ue_startDateTime = raw ''startDateTime'',
                   ue_endDateTime = raw ''endDateTime'',
                   ue_timeZone = raw ''timeZone'',
                   ue_locationName = raw ''locationName'',
                   ue_locationAddress = raw ''locationAddress'',
                   ue_locationMapLink = raw ''locationMapLink'',
                   ue_status = raw ''status''\<rparr>
          in if z_optional z_min1 (raw ''title'')
                \<and> z_optional (z_datetime rt) (raw ''startDateTime'')
                \<and> z_optional (z_datetime rt) (raw ''endDateTime'')
                \<and> z_optional (z_url rt) (raw ''locationMapLink'')
                \<and> z_optional (z_enum EVENT_STATUSES) (raw ''status'')
                \<and> updateEvent_refine v
             then Inr v else Inl BAD_REQUEST)"

text \<open>\<^verbatim>\<open>z.object({ id: z.string() })\<close>, the input of the delete and read actions.\<close>

definition id_schema :: "json \<Rightarrow> error + string" where
  "id_schema raw = (case raw ''id'' of None \<Rightarrow> Inl BAD_REQUEST | Some i \<Rightarrow> Inr i)"

record upsertEventTask_input =
  ut_id :: "string option"
  ut_eventId :: string
  ut_title :: string
  ut_description :: "string option"
  ut_dueDate :: "string option"
  ut_status :: "string option"
  ut_priority :: "string option"
  ut_userId :: "string option"

text \<open>As for \<open>ce_status\<close>: \<^verbatim>\<open>.default("todo")\<close> always fills \<open>ut_status\<close>.\<close>

definition upsertEventTask_schema :: "runtime \<Rightarrow> json \<Rightarrow> error + upsertEventTask_input" where
  "upsertEventTask_schema rt raw =
     (let status = z_default ''todo'' (raw ''status'') in
      case raw ''eventId'' of
        None \<Rightarrow> Inl BAD_REQUEST
      | Some eventId \<Rightarrow>
          (case raw ''title'' of
             None \<Rightarrow> Inl BAD_REQUEST
           | Some title \<Rightarrow>
               if z_min1 title
                  \<and> z_optional (z_datetime rt) (raw ''dueDate'')
                  \<and> z_enum TASK_STATUSES status
                  \<and> z_optional (z_enum TASK_PRIORITIES) (raw ''priority'')
               then Inr \<lparr>ut_id = raw ''id'',
                         ut_eventId = eventId,
                         ut_title = title,
                         ut_description = raw ''description'',
                         ut_dueDate = raw ''dueDate'',
                         ut_status = Some status,
                         ut_priority = raw ''priority'',
                         ut_userId = raw ''userId''\<rparr>
               else Inl BAD_REQUEST))"

record upsertEventGuest_input =
  ug_id :: "string option"
  ug_eventId :: string
  ug_name :: string
  ug_email :: "string option"
  ug_phone :: "string option"
  ug_rsvpStatus :: "string option"
  ug_notes :: "string option"
  ug_invitedAt :: "string option"
  ug_respondedAt :: "string option"

definition upsertEventGuest_schema :: "runtime \<Rightarrow> json \<Rightarrow> error + upsertEventGuest_input" where
  "upsertEventGuest_schema rt raw =
     (case raw ''eventId'' of
        None \<Rightarrow> Inl BAD_REQUEST
      | Some eventId \<Rightarrow>
          (case raw ''name'' of
             None \<Rightarrow> Inl BAD_REQUEST
           | Some name \<Rightarrow>
               if z_min1 name
                  \<and> z_optional (z_email rt) (raw ''email'')
                  \<and> z_optional (z_enum RSVP_STATUSES) (raw ''rsvpStatus'')
                  \<and> z_optional (z_datetime rt) (raw ''invitedAt'')
                  \<and> z_optional (z_datetime rt) (raw ''respondedAt'')
               then Inr \<lparr>ug_id = raw ''id'',
                         ug_eventId = eventId,
                         ug_name = name,
                         ug_email = raw ''email'',
                         ug_phone = raw ''phone'',
                         ug_rsvpStatus = raw ''rsvpStatus'',
                         ug_notes = raw ''notes'',
                         ug_invitedAt = raw ''invitedAt'',
                         ug_respondedAt = raw ''respondedAt''\<rparr>
               else Inl BAD_REQUEST))"

text \<open>
  \<^verbatim>\<open>z.object({ status: z.enum(EVENT_STATUSES).optional() }).optional()\<close>: the whole
  input may be missing.
\<close>

definition listMyEvents_schema :: "json option \<Rightarrow> error + string option" where
  "listMyEvents_schema raw =
     (case raw of
        None \<Rightarrow> Inr None
      | Some obj \<Rightarrow>
          if z_optional (z_enum EVENT_STATUSES) (obj ''status'') then Inr (obj ''status'')
          else Inl BAD_REQUEST)"

subsection \<open>The handlers\<close>

text \<open>The truthiness test \<^verbatim>\<open>if (input.id)\<close>: \<^verbatim>\<open>undefined\<close> and the empty string are falsy.\<close>

definition truthy :: "string option \<Rightarrow> bool" where
  "truthy v = (case v of None \<Rightarrow> False | Some s \<Rightarrow> s \<noteq> [])"

definition createEvent_handler ::
  "runtime \<Rightarrow> createEvent_input \<Rightarrow> api_context \<Rightarrow> store \<Rightarrow> (error + event) \<times> store" where
  "createEvent_handler rt input ctx db =
     or_throw (requireUser ctx) db (\<lambda>user.
       let event = \<lparr>event_id = randomUUID rt,
                    event_ownerUserId = user_id user,
                    event_title = ce_title input,
                    event_description = ce_description input,
                    event_startDateTime = parseOptionalDate rt (ce_startDateTime input),
                    event_endDateTime = parseOptionalDate rt (ce_endDateTime input),
                    event_timeZone = ce_timeZone input,
                    event_locationName = ce_locationName input,
                    event_locationAddress = ce_locationAddress input,
                    event_locationMapLink = ce_locationMapLink input,
                    event_status = nullish (ce_status input) (Some ''planning''),
                    event_createdAt = now rt,
                    event_updatedAt = now rt\<rparr>
       in or_throw (insert_Events event db) db (\<lambda>db'. (Inr event, db')))"

text \<open>
  The \<^verbatim>\<open>updates\<close> object of \<^verbatim>\<open>updateEvent\<close> starts as \<^verbatim>\<open>{ updatedAt: now }\<close> and
  receives a key for each member of the input that is not \<^verbatim>\<open>undefined\<close>.
\<close>

definition updateEvent_updates :: "runtime \<Rightarrow> updateEvent_input \<Rightarrow> event_updates" where
  "updateEvent_updates rt input =
     \<lparr>eu_title = ue_title input,
      eu_description = when_defined (ue_description input),
      eu_startDateTime =
        (if ue_startDateTime input \<noteq> None
         then assigned (parseOptionalDate rt (ue_startDateTime input)) else Absent),
      eu_endDateTime =
        (if ue_endDateTime input \<noteq> None
         then assigned (parseOptionalDate rt (ue_endDateTime input)) else Absent),
      eu_timeZone = when_defined (ue_timeZone input),
      eu_locationName = when_defined (ue_locationName input),
      eu_locationAddress = when_defined (ue_locationAddress input),
      eu_locationMapLink = when_defined (ue_locationMapLink input),
      eu_status = when_defined (ue_status input),
      eu_updatedAt = Some (now rt)\<rparr>"

definition updateEvent_handler ::
  "runtime \<Rightarrow> updateEvent_input \<Rightarrow> api_context \<Rightarrow> store \<Rightarrow> (error + event) \<times> store" where
  "updateEvent_handler rt input ctx db =
     or_throw (requireUser ctx) db (\<lambda>user.
     or_throw (getEventForUser (user_id user) (ue_id input) db) db (\<lambda>existing.
       let updates = updateEvent_updates rt input
       in (Inr (spread_event existing updates),
           db\<lparr>Events := update_set_where (set_event updates)
                            (\<lambda>e. event_id e = ue_id input) (Events db)\<rparr>)))"

definition deleteEvent_handler ::
  "string \<Rightarrow> api_context \<Rightarrow> store \<Rightarrow> (error + unit) \<times> store" where
  "deleteEvent_handler input_id ctx db =
     or_throw (requireUser ctx) db (\<lambda>user.
     or_throw (getEventForUser (user_id user) input_id db) db (\<lambda>_.
     or_throw (delete_Events (\<lambda>e. event_id e = input_id) db) db (\<lambda>db1.
       let db2 = db1\<lparr>EventTasks :=
                       delete_where (\<lambda>t. task_eventId t = input_id) (EventTasks db1)\<rparr>;
           db3 = db2\<lparr>EventGuests :=
                       delete_where (\<lambda>g. guest_eventId g = input_id) (EventGuests db2)\<rparr>
       in (Inr (), db3))))"

definition listMyEvents_handler ::
  "string option \<Rightarrow> api_context \<Rightarrow> store \<Rightarrow> (error + event list \<times> nat) \<times> store" where
  "listMyEvents_handler input_status ctx db =
     or_throw (requireUser ctx) db (\<lambda>user.
       let statusFilter =
             (if truthy input_status
              then (\<lambda>e. event_ownerUserId e = user_id user \<and> event_status e = input_status)
              else (\<lambda>e. event_ownerUserId e = user_id user));
           events = select_from_where statusFilter (Events db)
       in (Inr (events, length events), db))"

definition getEventWithDetails_handler ::
  "string \<Rightarrow> api_context \<Rightarrow> store \<Rightarrow> (error + event \<times> task list \<times> guest list) \<times> store" where
  "getEventWithDetails_handler input_id ctx db =
     or_throw (requireUser ctx) db (\<lambda>user.
     or_throw (getEventForUser (user_id user) input_id db) db (\<lambda>event.
       let tasks = select_from_where (\<lambda>t. task_eventId t = input_id) (EventTasks db);
           guests = select_from_where (\<lambda>g. guest_eventId g = input_id) (EventGuests db)
       in (Inr (event, tasks, guests), db)))"

definition upsertEventTask_updates ::
  "runtime \<Rightarrow> upsertEventTask_input \<Rightarrow> task \<Rightarrow> task_updates" where
  "upsertEventTask_updates rt input existing =
     \<lparr>tu_title = Some (ut_title input),
      tu_description = assigned (ut_description input),
      tu_dueDate = assigned (parseOptionalDate rt (ut_dueDate input)),
      tu_status = assigned (nullish (ut_status input) (task_status existing)),
      tu_priority = assigned (ut_priority input),
      tu_userId = assigned (ut_userId input),
      tu_updatedAt = Some (now rt)\<rparr>"

definition upsertEventTask_handler ::
  "runtime \<Rightarrow> upsertEventTask_input \<Rightarrow> api_context \<Rightarrow> store \<Rightarrow> (error + task) \<times> store" where
  "upsertEventTask_handler rt input ctx db =
     or_throw (requireUser ctx) db (\<lambda>user.
     or_throw (getEventForUser (user_id user) (ut_eventId input) db) db (\<lambda>event.
       if truthy (ut_id input) then
         (case first (select_from_where (\<lambda>t. Some (task_id t) = ut_id input) (EventTasks db)) of
            None \<Rightarrow> (Inl NOT_FOUND, db)
          | Some existing \<Rightarrow>
              if task_eventId existing \<noteq> event_id event then (Inl FORBIDDEN, db)
              else
                let updates = upsertEventTask_updates rt input existing
                in (Inr (spread_task existing updates),
                    db\<lparr>EventTasks := update_set_where (set_task updates)
                                         (\<lambda>t. Some (task_id t) = ut_id input) (EventTasks db)\<rparr>))
       else
         let task = \<lparr>task_id = randomUUID rt,
                     task_eventId = event_id event,
                     task_userId = ut_userId input,
                     task_title = ut_title input,
                     task_description = ut_description input,
                     task_dueDate = parseOptionalDate rt (ut_dueDate input),
                     task_status = nullish (ut_status input) (Some ''todo''),
                     task_priority = ut_priority input,
                     task_createdAt = now rt,
                     task_updatedAt = now rt\<rparr>
         in or_throw (insert_EventTasks task db) db (\<lambda>db'. (Inr task, db'))))"

definition deleteEventTask_handler ::
  "string \<Rightarrow> api_context \<Rightarrow> store \<Rightarrow> (error + unit) \<times> store" where
  "deleteEventTask_handler input_id ctx db =
     or_throw (requireUser ctx) db (\<lambda>user.
       case first (select_from_where (\<lambda>t. task_id t = input_id) (EventTasks db)) of
         None \<Rightarrow> (Inl NOT_FOUND, db)
       | Some existing \<Rightarrow>
           or_throw (getEventForUser (user_id user) (task_eventId existing) db) db (\<lambda>_.
             (Inr (), db\<lparr>EventTasks :=
                           delete_where (\<lambda>t. task_id t = input_id) (EventTasks db)\<rparr>)))"

definition upsertEventGuest_updates :: "runtime \<Rightarrow> upsertEventGuest_input \<Rightarrow> guest_updates" where
  "upsertEventGuest_updates rt input =
     \<lparr>gu_name = Some (ug_name input),
      gu_email = assigned (ug_email input),
      gu_phone = assigned (ug_phone input),
      gu_rsvpStatus = assigned (ug_rsvpStatus input),
      gu_notes = assigned (ug_notes input),
      gu_invitedAt = assigned (parseOptionalDate rt (ug_invitedAt input)),
      gu_respondedAt = assigned (parseOptionalDate rt (ug_respondedAt input))\<rparr>"

definition upsertEventGuest_handler ::
  "runtime \<Rightarrow> upsertEventGuest_input \<Rightarrow> api_context \<Rightarrow> store \<Rightarrow> (error + guest) \<times> store" where
  "upsertEventGuest_handler rt input ctx db =
     or_throw (requireUser ctx) db (\<lambda>user.
     or_throw (getEventForUser (user_id user) (ug_eventId input) db) db (\<lambda>event.
       if truthy (ug_id input) then
         (case first (select_from_where (\<lambda>g. Some (guest_id g) = ug_id input) (EventGuests db)) of
            None \<Rightarrow> (Inl NOT_FOUND, db)
          | Some existing \<Rightarrow>
              if guest_eventId existing \<noteq> event_id event then (Inl FORBIDDEN, db)
              else
                let updates = upsertEventGuest_updates rt input
                in (Inr (spread_guest existing updates),
                    db\<lparr>EventGuests := update_set_where (set_guest updates)
                                          (\<lambda>g. Some (guest_id g) = ug_id input) (EventGuests db)\<rparr>))
       else
         let guest = \<lparr>guest_id = randomUUID rt,
                      guest_eventId = event_id event,
                      guest_name = ug_name input,
                      guest_email = ug_email input,
                      guest_phone = ug_phone input,
                      guest_rsvpStatus = ug_rsvpStatus input,
                      guest_notes = ug_notes input,
                      guest_invitedAt = parseOptionalDate rt (ug_invitedAt input),
                      guest_respondedAt = parseOptionalDate rt (ug_respondedAt input),
                      guest_createdAt = now rt\<rparr>
         in or_throw (insert_EventGuests guest db) db (\<lambda>db'. (Inr guest, db'))))"

definition deleteEventGuest_handler ::
  "string \<Rightarrow> api_context \<Rightarrow> store \<Rightarrow> (error + unit) \<times> store" where
  "deleteEventGuest_handler input_id ctx db =
     or_throw (requireUser ctx) db (\<lambda>user.
       case first (select_from_where (\<lambda>g. guest_id g = input_id) (EventGuests db)) of
         None \<Rightarrow> (Inl NOT_FOUND, db)
       | Some existing \<Rightarrow>
           or_throw (getEventForUser (user_id user) (guest_eventId existing) db) db (\<lambda>_.
             (Inr (), db\<lparr>EventGuests :=
                           delete_where (\<lambda>g. guest_id g = input_id) (EventGuests db)\<rparr>)))"

subsection \<open>The actions of \<^verbatim>\<open>server\<close>\<close>

definition createEvent :: "runtime \<Rightarrow> json \<Rightarrow> api_context \<Rightarrow> store \<Rightarrow> (error + event) \<times> store" where
  "createEvent rt = defineAction (createEvent_schema rt) (createEvent_handler rt)"

definition updateEvent :: "runtime \<Rightarrow> json \<Rightarrow> api_context \<Rightarrow> store \<Rightarrow> (error + event) \<times> store" where
  "updateEvent rt = defineAction (updateEvent_schema rt) (updateEvent_handler rt)"

definition deleteEvent :: "json \<Rightarrow> api_context \<Rightarrow> store \<Rightarrow> (error + unit) \<times> store" where
  "deleteEvent = defineAction id_schema deleteEvent_handler"

definition listMyEvents ::
  "json option \<Rightarrow> api_context \<Rightarrow> store \<Rightarrow> (error + event list \<times> nat) \<times> store" where
  "listMyEvents = defineAction listMyEvents_schema listMyEvents_handler"

definition getEventWithDetails ::
  "json \<Rightarrow> api_context \<Rightarrow> store \<Rightarrow> (error + event \<times> task list \<times> guest list) \<times> store" where
  "getEventWithDetails = defineAction id_schema getEventWithDetails_handler"

definition upsertEventTask :: "runtime \<Rightarrow> json \<Rightarrow> api_context \<Rightarrow> store \<Rightarrow> (error + task) \<times> store" where
  "upsertEventTask rt = defineAction (upsertEventTask_schema rt) (upsertEventTask_handler rt)"

definition deleteEventTask :: "json \<Rightarrow> api_context \<Rightarrow> store \<Rightarrow> (error + unit) \<times> store" where
  "deleteEventTask = defineAction id_schema deleteEventTask_handler"

definition upsertEventGuest :: "runtime \<Rightarrow> json \<Rightarrow> api_context \<Rightarrow> store \<Rightarrow> (error + guest) \<times> store" where
  "upsertEventGuest rt = defineAction (upsertEventGuest_schema rt) (upsertEventGuest_handler rt)"

definition deleteEventGuest :: "json \<Rightarrow> api_context \<Rightarrow> store \<Rightarrow> (error + unit) \<times> store" where
  "deleteEventGuest = defineAction id_schema deleteEventGuest_handler"

subsection \<open>A small store to run the actions on\<close>

text \<open>
  Two users, an event of each one with a task and a guest on it, and a second event of
  alice, \<open>picnic\<close>, with neither. The platform
  \<open>rt0\<close> accepts every format, reads a date as the length of its text, and hands out the
  identity \<open>u-1\<close> at time 1000.
\<close>

definition rt0 :: runtime where
  "rt0 = \<lparr>is_datetime = (\<lambda>s. True), is_url = (\<lambda>s. True), is_email = (\<lambda>s. True),
          new_Date = (\<lambda>s. int (length s)), now = 1000, randomUUID = ''u-1''\<rparr>"

definition alice :: user where
  "alice = \<lparr>user_id = ''alice''\<rparr>"

definition bob :: user where
  "bob = \<lparr>user_id = ''bob''\<rparr>"

definition as_alice :: api_context where
  "as_alice = \<lparr>locals_user = Some alice\<rparr>"

definition as_bob :: api_context where
  "as_bob = \<lparr>locals_user = Some bob\<rparr>"

definition launch :: event where
  "launch = \<lparr>event_id = ''e1'', event_ownerUserId = ''alice'', event_title = ''Launch'',
             event_description = Some ''Product launch'', event_startDateTime = None,
             event_endDateTime = None, event_timeZone = Some ''Europe/Paris'',
             event_locationName = None, event_locationAddress = None,
             event_locationMapLink = None, event_status = Some ''planning'',
             event_createdAt = 10, event_updatedAt = 10\<rparr>"

definition party :: event where
  "party = \<lparr>event_id = ''e2'', event_ownerUserId = ''bob'', event_title = ''Party'',
            event_description = None, event_startDateTime = None,
            event_endDateTime = None, event_timeZone = None,
            event_locationName = None, event_locationAddress = None,
            event_locationMapLink = None, event_status = Some ''confirmed'',
            event_createdAt = 11, event_updatedAt = 11\<rparr>"

definition picnic :: event where
  "picnic = \<lparr>event_id = ''e3'', event_ownerUserId = ''alice'', event_title = ''Picnic'',
             event_description = None, event_startDateTime = None,
             event_endDateTime = None, event_timeZone = None,
             event_locationName = None, event_locationAddress = None,
             event_locationMapLink = None, event_status = Some ''planning'',
             event_createdAt = 12, event_updatedAt = 12\<rparr>"

definition cake :: task where
  "cake = \<lparr>task_id = ''t1'', task_eventId = ''e1'', task_userId = None,
           task_title = ''Order cake'', task_description = Some ''chocolate'',
           task_dueDate = None, task_status = Some ''done'', task_priority = Some ''high'',
           task_createdAt = 20, task_updatedAt = 20\<rparr>"

definition balloons :: task where
  "balloons = \<lparr>task_id = ''t2'', task_eventId = ''e2'', task_userId = None,
               task_title = ''Balloons'', task_description = None,
               task_dueDate = None, task_status = Some ''todo'', task_priority = None,
               task_createdAt = 21, task_updatedAt = 21\<rparr>"

definition ana :: guest where
  "ana = \<lparr>guest_id = ''g1'', guest_eventId = ''e1'', guest_name = ''Ana'',
          guest_email = Some ''ana@example.org'', guest_phone = None,
          guest_rsvpStatus = Some ''invited'', guest_notes = None,
          guest_invitedAt = None, guest_respondedAt = None, guest_createdAt = 30\<rparr>"

definition ben :: guest where
  "ben = \<lparr>guest_id = ''g2'', guest_eventId = ''e2'', guest_name = ''Ben'',
          guest_email = None, guest_phone = None,
          guest_rsvpStatus = None, guest_notes = None,
          guest_invitedAt = None, guest_respondedAt = None, guest_createdAt = 31\<rparr>"

definition db0 :: store where
  "db0 = \<lparr>Events = [launch, party, picnic], EventTasks = [cake, balloons], EventGuests = [ana, ben]\<rparr>"

definition empty_db :: store where
  "empty_db = \<lparr>Events = [], EventTasks = [], EventGuests = []\<rparr>"

text \<open>
  The guest scenario: alice invites Dan to \<open>launch\<close>, then sends his answer. \<open>rt1\<close> is
  the platform at the later call.
\<close>

definition invite_dan :: json where
  "invite_dan = [''eventId'' \<mapsto> ''e1'', ''name'' \<mapsto> ''Dan'', ''rsvpStatus'' \<mapsto> ''invited'']"

definition dan :: guest where
  "dan = \<lparr>guest_id = ''u-1'', guest_eventId = ''e1'', guest_name = ''Dan'',
          guest_email = None, guest_phone = None,
          guest_rsvpStatus = Some ''invited'', guest_notes = None,
          guest_invitedAt = None, guest_respondedAt = None, guest_createdAt = 1000\<rparr>"

definition dan_goes :: json where
  "dan_goes = [''id'' \<mapsto> ''u-1'', ''eventId'' \<mapsto> ''e1'', ''name'' \<mapsto> ''Dan'',
               ''rsvpStatus'' \<mapsto> ''going'']"

definition rt1 :: runtime where
  "rt1 = rt0\<lparr>now := 2000, randomUUID := ''u-2''\<rparr>"

text \<open>Two inputs without an id, for a new task and a new guest of \<open>launch\<close>.\<close>

definition new_task :: json where
  "new_task = [''eventId'' \<mapsto> ''e1'', ''title'' \<mapsto> ''Book room'']"

definition new_guest :: json where
  "new_guest = [''eventId'' \<mapsto> ''e1'', ''name'' \<mapsto> ''Cleo'']"

section \<open>Properties\<close>

subsection \<open>Evaluation and the query builder\<close>

lemmas schema_defs = createEvent_schema_def updateEvent_schema_def id_schema_def
  upsertEventTask_schema_def upsertEventGuest_schema_def updateEvent_refine_def
  z_min1_def z_datetime_def z_url_def z_email_def z_enum_def z_optional_def z_default_def
  EVENT_STATUSES_def TASK_STATUSES_def TASK_PRIORITIES_def RSVP_STATUSES_def

lemmas fixture_defs = rt0_def alice_def bob_def as_alice_def as_bob_def launch_def party_def
  picnic_def
  cake_def balloons_def ana_def ben_def db0_def empty_db_def

lemmas run_defs = defineAction_def or_throw_def requireUser_def getEventForUser_def
  first_def select_from_where_def insert_values_def update_set_where_def delete_where_def
  insert_Events_def insert_EventTasks_def insert_EventGuests_def delete_Events_def
  references_Events_def referenced_def
  truthy_def nullish_def parseOptionalDate_def Let_def

lemma first_launch:
  "first (select_from_where (\<lambda>e. event_id e = ''e1'') (Events db0)) = Some launch"
  by (simp add: fixture_defs run_defs)

lemma parseOptionalDate_valid:
  "z_optional (z_datetime rt) v \<Longrightarrow> parseOptionalDate rt v = map_option (new_Date rt) v"
  by (cases v) (simp_all add: parseOptionalDate_def z_optional_def z_datetime_def)

lemma defineAction_accepted:
  "schema raw = Inr i \<Longrightarrow> defineAction schema handler raw ctx db = handler i ctx db"
  by (simp add: defineAction_def or_throw_def)

lemma defineAction_rejected:
  "schema raw = Inl e \<Longrightarrow> defineAction schema handler raw ctx db = (Inl e, db)"
  by (simp add: defineAction_def or_throw_def)

lemma requireUser_Some: "locals_user ctx = Some u \<Longrightarrow> requireUser ctx = Inr u"
  by (simp add: requireUser_def)

lemma id_schema_Some: "raw ''id'' = Some i \<Longrightarrow> id_schema raw = Inr i"
  by (simp add: id_schema_def)

lemma getEventForUser_forbidden:
  "first (select_from_where (\<lambda>e. event_id e = eid) (Events db)) = Some ev \<Longrightarrow>
   event_ownerUserId ev \<noteq> uid \<Longrightarrow> getEventForUser uid eid db = Inl FORBIDDEN"
  by (simp add: getEventForUser_def)

lemma getEventForUser_owner:
  "first (select_from_where (\<lambda>e. event_id e = eid) (Events db)) = Some ev \<Longrightarrow>
   event_ownerUserId ev = uid \<Longrightarrow> getEventForUser uid eid db = Inr ev"
  by (simp add: getEventForUser_def)

lemma first_select_holds:
  "first (select_from_where c rows) = Some r \<Longrightarrow> c r \<and> r \<in> set rows"
proof -
  assume "first (select_from_where c rows) = Some r"
  then obtain rs where "filter c rows = r # rs"
    by (auto simp: first_def select_from_where_def split: list.splits)
  then have "r \<in> set (filter c rows)" by simp
  then show ?thesis by simp
qed

lemma first_None: "first rows = None \<longleftrightarrow> rows = []"
  by (cases rows) (simp_all add: first_def)

lemma first_select_None:
  "first (select_from_where c rows) = None \<longleftrightarrow> (\<forall>r \<in> set rows. \<not> c r)"
  by (simp add: first_None select_from_where_def filter_empty_conv)

lemma select_delete: "select_from_where c (delete_where c rows) = []"
  by (simp add: select_from_where_def delete_where_def)

lemma first_select_update:
  assumes "\<And>r. c r \<Longrightarrow> c (s r)"
  shows "first (select_from_where c (update_set_where s c rows))
           = map_option s (first (select_from_where c rows))"
  using assms
  by (induction rows) (auto simp: first_def select_from_where_def update_set_where_def)

lemma insert_values_fresh:
  "pk r \<notin> set (map pk rows) \<Longrightarrow> insert_values pk r rows = Inr (rows @ [r])"
  by (simp add: insert_values_def)

lemma insert_values_taken:
  "pk r \<in> set (map pk rows) \<Longrightarrow> insert_values pk r rows = Inl INTERNAL_SERVER_ERROR"
  by (simp add: insert_values_def)

lemma found_references_Events:
  "first (select_from_where (\<lambda>e. event_id e = eid) (Events db)) = Some ev \<Longrightarrow>
   references_Events eid db"
  using first_select_holds [of "\<lambda>e. event_id e = eid" "Events db" ev]
  by (auto simp: references_Events_def)

lemma updateEvent_schema_id:
  "updateEvent_schema rt raw = Inr input \<Longrightarrow> raw ''id'' = Some (ue_id input)"
  by (auto simp: updateEvent_schema_def Let_def split: option.splits if_splits)

lemma upsertEventTask_schema_eventId:
  "upsertEventTask_schema rt raw = Inr input \<Longrightarrow>
   raw ''eventId'' = Some (ut_eventId input) \<and> ut_id input = raw ''id''"
  by (auto simp: upsertEventTask_schema_def Let_def split: option.splits if_splits)

lemma upsertEventGuest_schema_eventId:
  "upsertEventGuest_schema rt raw = Inr input \<Longrightarrow>
   raw ''eventId'' = Some (ug_eventId input) \<and> ug_id input = raw ''id''"
  by (auto simp: upsertEventGuest_schema_def Let_def split: option.splits if_splits)

lemma updateEvent_forbidden:
  assumes "locals_user ctx = Some u"
    and "first (select_from_where (\<lambda>e. event_id e = eid) (Events db)) = Some ev"
    and "event_ownerUserId ev \<noteq> user_id u"
    and "updateEvent_schema rt raw = Inr input" and "raw ''id'' = Some eid"
  shows "updateEvent rt raw ctx db = (Inl FORBIDDEN, db)"
proof -
  have "ue_id input = eid" using updateEvent_schema_id [OF assms(4)] assms(5) by simp
  then show ?thesis
    using assms(1-4)
    by (simp add: updateEvent_def defineAction_accepted updateEvent_handler_def
        requireUser_Some getEventForUser_forbidden or_throw_def)
qed

lemma deleteEvent_forbidden:
  assumes "locals_user ctx = Some u"
    and "first (select_from_where (\<lambda>e. event_id e = eid) (Events db)) = Some ev"
    and "event_ownerUserId ev \<noteq> user_id u"
    and "raw ''id'' = Some eid"
  shows "deleteEvent raw ctx db = (Inl FORBIDDEN, db)"
  using assms
  by (simp add: deleteEvent_def defineAction_accepted id_schema_Some deleteEvent_handler_def
      requireUser_Some getEventForUser_forbidden or_throw_def)

lemma getEventWithDetails_forbidden:
  assumes "locals_user ctx = Some u"
    and "first (select_from_where (\<lambda>e. event_id e = eid) (Events db)) = Some ev"
    and "event_ownerUserId ev \<noteq> user_id u"
    and "raw ''id'' = Some eid"
  shows "getEventWithDetails raw ctx db = (Inl FORBIDDEN, db)"
  using assms
  by (simp add: getEventWithDetails_def defineAction_accepted id_schema_Some
      getEventWithDetails_handler_def requireUser_Some getEventForUser_forbidden or_throw_def)

lemma upsertEventTask_forbidden:
  assumes "locals_user ctx = Some u"
    and "first (select_from_where (\<lambda>e. event_id e = eid) (Events db)) = Some ev"
    and "event_ownerUserId ev \<noteq> user_id u"
    and "upsertEventTask_schema rt raw = Inr input" and "raw ''eventId'' = Some eid"
  shows "upsertEventTask rt raw ctx db = (Inl FORBIDDEN, db)"
proof -
  have "ut_eventId input = eid" using upsertEventTask_schema_eventId [OF assms(4)] assms(5) by simp
  then show ?thesis
    using assms(1-4)
    by (simp add: upsertEventTask_def defineAction_accepted upsertEventTask_handler_def
        requireUser_Some getEventForUser_forbidden or_throw_def)
qed

lemma upsertEventGuest_forbidden:
  assumes "locals_user ctx = Some u"
    and "first (select_from_where (\<lambda>e. event_id e = eid) (Events db)) = Some ev"
    and "event_ownerUserId ev \<noteq> user_id u"
    and "upsertEventGuest_schema rt raw = Inr input" and "raw ''eventId'' = Some eid"
  shows "upsertEventGuest rt raw ctx db = (Inl FORBIDDEN, db)"
proof -
  have "ug_eventId input = eid" using upsertEventGuest_schema_eventId [OF assms(4)] assms(5) by simp
  then show ?thesis
    using assms(1-4)
    by (simp add: upsertEventGuest_def defineAction_accepted upsertEventGuest_handler_def
        requireUser_Some getEventForUser_forbidden or_throw_def)
qed

lemma deleteEventTask_found:
  assumes "locals_user ctx = Some u" and "raw ''id'' = Some i"
    and "first (select_from_where (\<lambda>t. task_id t = i) (EventTasks db)) = Some t"
  shows "deleteEventTask raw ctx db =
           (case getEventForUser (user_id u) (task_eventId t) db of
              Inl e \<Rightarrow> (Inl e, db)
            | Inr _ \<Rightarrow> (Inr (), db\<lparr>EventTasks := delete_where (\<lambda>t. task_id t = i) (EventTasks db)\<rparr>))"
  using assms
  by (simp add: deleteEventTask_def defineAction_accepted id_schema_Some
      deleteEventTask_handler_def requireUser_Some or_throw_def)

lemma deleteEventTask_absent:
  assumes "locals_user ctx = Some u" and "raw ''id'' = Some i"
    and "first (select_from_where (\<lambda>t. task_id t = i) (EventTasks db)) = None"
  shows "deleteEventTask raw ctx db = (Inl NOT_FOUND, db)"
  using assms
  by (simp add: deleteEventTask_def defineAction_accepted id_schema_Some
      deleteEventTask_handler_def requireUser_Some or_throw_def)

lemma deleteEventGuest_found:
  assumes "locals_user ctx = Some u" and "raw ''id'' = Some i"
    and "first (select_from_where (\<lambda>g. guest_id g = i) (EventGuests db)) = Some g"
  shows "deleteEventGuest raw ctx db =
           (case getEventForUser (user_id u) (guest_eventId g) db of
              Inl e \<Rightarrow> (Inl e, db)
            | Inr _ \<Rightarrow> (Inr (), db\<lparr>EventGuests := delete_where (\<lambda>g. guest_id g = i) (EventGuests db)\<rparr>))"
  using assms
  by (simp add: deleteEventGuest_def defineAction_accepted id_schema_Some
      deleteEventGuest_handler_def requireUser_Some or_throw_def)

lemma deleteEventGuest_absent:
  assumes "locals_user ctx = Some u" and "raw ''id'' = Some i"
    and "first (select_from_where (\<lambda>g. guest_id g = i) (EventGuests db)) = None"
  shows "deleteEventGuest raw ctx db = (Inl NOT_FOUND, db)"
  using assms
  by (simp add: deleteEventGuest_def defineAction_accepted id_schema_Some
      deleteEventGuest_handler_def requireUser_Some or_throw_def)

subsection \<open>Ownership\<close>

text \<open>
  C1. Let the caller be signed in as \<open>u\<close> and let the event \<open>eid\<close>
  exist with an owner other than \<open>u\<close>. Then each action that refers to that event fails
  with \<open>FORBIDDEN\<close> and returns the store it was given, provided the input passes the
  action's schema: \<open>updateEvent\<close>, \<open>deleteEvent\<close> and \<open>getEventWithDetails\<close> called with
  that id, \<open>upsertEventTask\<close> and \<open>upsertEventGuest\<close> called with that \<open>eventId\<close>,
  \<open>deleteEventTask\<close> and \<open>deleteEventGuest\<close> called with the id of a stored task or guest
  whose own \<open>eventId\<close> is \<open>eid\<close>.
\<close>

theorem non_owner_is_forbidden:
  assumes user: "locals_user ctx = Some u"
    and found: "first (select_from_where (\<lambda>e. event_id e = eid) (Events db)) = Some ev"
    and other: "event_ownerUserId ev \<noteq> user_id u"
  shows "(\<forall>raw input. updateEvent_schema rt raw = Inr input \<and> raw ''id'' = Some eid
            \<longrightarrow> updateEvent rt raw ctx db = (Inl FORBIDDEN, db))
       \<and> (\<forall>raw. raw ''id'' = Some eid \<longrightarrow> deleteEvent raw ctx db = (Inl FORBIDDEN, db))
       \<and> (\<forall>raw. raw ''id'' = Some eid \<longrightarrow> getEventWithDetails raw ctx db = (Inl FORBIDDEN, db))
       \<and> (\<forall>raw input. upsertEventTask_schema rt raw = Inr input \<and> raw ''eventId'' = Some eid
            \<longrightarrow> upsertEventTask rt raw ctx db = (Inl FORBIDDEN, db))
       \<and> (\<forall>raw i t. raw ''id'' = Some i
              \<and> first (select_from_where (\<lambda>t. task_id t = i) (EventTasks db)) = Some t
              \<and> task_eventId t = eid
            \<longrightarrow> deleteEventTask raw ctx db = (Inl FORBIDDEN, db))
       \<and> (\<forall>raw input. upsertEventGuest_schema rt raw = Inr input \<and> raw ''eventId'' = Some eid
            \<longrightarrow> upsertEventGuest rt raw ctx db = (Inl FORBIDDEN, db))
       \<and> (\<forall>raw i g. raw ''id'' = Some i
              \<and> first (select_from_where (\<lambda>g. guest_id g = i) (EventGuests db)) = Some g
              \<and> guest_eventId g = eid
            \<longrightarrow> deleteEventGuest raw ctx db = (Inl FORBIDDEN, db))"
proof -
  have a: "\<forall>raw input. updateEvent_schema rt raw = Inr input \<and> raw ''id'' = Some eid
            \<longrightarrow> updateEvent rt raw ctx db = (Inl FORBIDDEN, db)"
    using updateEvent_forbidden [OF user found other] by blast
  have b: "\<forall>raw. raw ''id'' = Some eid \<longrightarrow> deleteEvent raw ctx db = (Inl FORBIDDEN, db)"
    using deleteEvent_forbidden [OF user found other] by blast
  have c: "\<forall>raw. raw ''id'' = Some eid \<longrightarrow> getEventWithDetails raw ctx db = (Inl FORBIDDEN, db)"
    using getEventWithDetails_forbidden [OF user found other] by blast
  have d: "\<forall>raw input. upsertEventTask_schema rt raw = Inr input \<and> raw ''eventId'' = Some eid
            \<longrightarrow> upsertEventTask rt raw ctx db = (Inl FORBIDDEN, db)"
    using upsertEventTask_forbidden [OF user found other] by blast
  have e: "\<forall>raw i t. raw ''id'' = Some i
              \<and> first (select_from_where (\<lambda>t. task_id t = i) (EventTasks db)) = Some t
              \<and> task_eventId t = eid
            \<longrightarrow> deleteEventTask raw ctx db = (Inl FORBIDDEN, db)"
    using getEventForUser_forbidden [OF found other]
    by (simp add: deleteEventTask_found [OF user])
  have f: "\<forall>raw input. upsertEventGuest_schema rt raw = Inr input \<and> raw ''eventId'' = Some eid
            \<longrightarrow> upsertEventGuest rt raw ctx db = (Inl FORBIDDEN, db)"
    using upsertEventGuest_forbidden [OF user found other] by blast
  have g: "\<forall>raw i g. raw ''id'' = Some i
              \<and> first (select_from_where (\<lambda>g. guest_id g = i) (EventGuests db)) = Some g
              \<and> guest_eventId g = eid
            \<longrightarrow> deleteEventGuest raw ctx db = (Inl FORBIDDEN, db)"
    using getEventForUser_forbidden [OF found other]
    by (simp add: deleteEventGuest_found [OF user])
  show ?thesis
    by (intro conjI) (fact a, fact b, fact c, fact d, fact e, fact f, fact g)
qed

text \<open>
  Witness for C1: bob, who owns \<open>party\<close>, tries each of the seven actions on alice's
  event \<open>launch\<close>, its task and its guest.
\<close>

theorem non_owner_witness:
  "updateEvent rt0 [''id'' \<mapsto> ''e1'', ''status'' \<mapsto> ''done''] as_bob db0 = (Inl FORBIDDEN, db0)
   \<and> deleteEvent [''id'' \<mapsto> ''e1''] as_bob db0 = (Inl FORBIDDEN, db0)
   \<and> getEventWithDetails [''id'' \<mapsto> ''e1''] as_bob db0 = (Inl FORBIDDEN, db0)
   \<and> upsertEventTask rt0 [''eventId'' \<mapsto> ''e1'', ''title'' \<mapsto> ''Mine now''] as_bob db0
        = (Inl FORBIDDEN, db0)
   \<and> deleteEventTask [''id'' \<mapsto> ''t1''] as_bob db0 = (Inl FORBIDDEN, db0)
   \<and> upsertEventGuest rt0 [''eventId'' \<mapsto> ''e1'', ''name'' \<mapsto> ''Bob''] as_bob db0
        = (Inl FORBIDDEN, db0)
   \<and> deleteEventGuest [''id'' \<mapsto> ''g1''] as_bob db0 = (Inl FORBIDDEN, db0)"
proof -
  have user: "locals_user as_bob = Some bob"
    by (simp add: as_bob_def)
  have other: "event_ownerUserId launch \<noteq> user_id bob"
    by (simp add: launch_def bob_def)
  have s1: "updateEvent_schema rt0 [''id'' \<mapsto> ''e1'', ''status'' \<mapsto> ''done'']
              = Inr \<lparr>ue_id = ''e1'', ue_title = None, ue_description = None,
                     ue_startDateTime = None, ue_endDateTime = None, ue_timeZone = None,
                     ue_locationName = None, ue_locationAddress = None,
                     ue_locationMapLink = None, ue_status = Some ''done''\<rparr>"
    by (simp add: schema_defs)
  have s2: "upsertEventTask_schema rt0 [''eventId'' \<mapsto> ''e1'', ''title'' \<mapsto> ''Mine now'']
              = Inr \<lparr>ut_id = None, ut_eventId = ''e1'', ut_title = ''Mine now'',
                     ut_description = None, ut_dueDate = None, ut_status = Some ''todo'',
                     ut_priority = None, ut_userId = None\<rparr>"
    by (simp add: schema_defs)
  have s3: "upsertEventGuest_schema rt0 [''eventId'' \<mapsto> ''e1'', ''name'' \<mapsto> ''Bob'']
              = Inr \<lparr>ug_id = None, ug_eventId = ''e1'', ug_name = ''Bob'', ug_email = None,
                     ug_phone = None, ug_rsvpStatus = None, ug_notes = None,
                     ug_invitedAt = None, ug_respondedAt = None\<rparr>"
    by (simp add: schema_defs)
  have t: "first (select_from_where (\<lambda>t. task_id t = ''t1'') (EventTasks db0)) = Some cake"
    "task_eventId cake = ''e1''"
    by (simp_all add: db0_def cake_def balloons_def run_defs)
  have g: "first (select_from_where (\<lambda>g. guest_id g = ''g1'') (EventGuests db0)) = Some ana"
    "guest_eventId ana = ''e1''"
    by (simp_all add: db0_def ana_def ben_def run_defs)
  note main = non_owner_is_forbidden [OF user first_launch other, of rt0]
  show ?thesis
    using main s1 s2 s3 t g by (intro conjI) (fastforce)+
qed

subsection \<open>Creating and updating events\<close>

text \<open>
  C5. An \<open>updateEvent\<close> input in which none of the nine updatable members is present is
  rejected with \<open>BAD_REQUEST\<close> (the validation error) and the store is returned as it
  was. The result is the same for every context and every store, the signed-out context
  included: the rejection comes before \<open>requireUser\<close> and before any query.
\<close>

theorem updateEvent_empty_rejected:
  assumes "raw ''title'' = None" and "raw ''description'' = None"
    and "raw ''startDateTime'' = None" and "raw ''endDateTime'' = None"
    and "raw ''timeZone'' = None" and "raw ''locationName'' = None"
    and "raw ''locationAddress'' = None" and "raw ''locationMapLink'' = None"
    and "raw ''status'' = None"
  shows "updateEvent rt raw ctx db = (Inl BAD_REQUEST, db)"
  using assms
  by (simp add: updateEvent_def defineAction_def or_throw_def updateEvent_schema_def
      updateEvent_refine_def Let_def split: option.splits)

text \<open>
  Witness for C5: an input that holds only an id, sent without a signed-in user against
  the empty store, is rejected as a bad request.
\<close>

theorem updateEvent_empty_rejected_witness:
  "updateEvent rt0 [''id'' \<mapsto> ''e1''] \<lparr>locals_user = None\<rparr> empty_db
     = (Inl BAD_REQUEST, empty_db)"
  using updateEvent_empty_rejected [of "[''id'' \<mapsto> ''e1'']" rt0 "\<lparr>locals_user = None\<rparr>" "empty_db"]
  by simp

text \<open>
  When the generated identity is already the id of an event, the primary key refuses
  the insert: the action ends with \<open>INTERNAL_SERVER_ERROR\<close> and the store is as it was.
\<close>

lemma createEvent_id_taken:
  assumes user: "locals_user ctx = Some u"
    and valid: "createEvent_schema rt raw = Inr input"
    and taken: "randomUUID rt \<in> set (map event_id (Events db))"
  shows "createEvent rt raw ctx db = (Inl INTERNAL_SERVER_ERROR, db)"
  using user valid taken
  by (simp add: createEvent_def defineAction_def or_throw_def createEvent_handler_def
      requireUser_def Let_def insert_Events_def insert_values_def)

text \<open>
  C7. For a signed-in user and an input that the schema accepts, \<open>createEvent\<close> appends
  one row to \<open>Events\<close> and returns that same row, the identity that
  \<^verbatim>\<open>crypto.randomUUID()\<close> generates being fresh (not yet the id of an event). Its id is
  the generated one, its owner is the user, its status is the supplied status or
  \<open>planning\<close>, both timestamps are the one clock reading of the call, and every other
  column is the input member of the same name (a timestamp text converted by
  \<^verbatim>\<open>new Date\<close>).
\<close>

theorem createEvent_returns_inserted_event:
  assumes user: "locals_user ctx = Some u"
    and valid: "createEvent_schema rt raw = Inr input"
    and fresh: "randomUUID rt \<notin> set (map event_id (Events db))"
  shows "\<exists>ev. createEvent rt raw ctx db = (Inr ev, db\<lparr>Events := Events db @ [ev]\<rparr>)
           \<and> event_id ev = randomUUID rt
           \<and> event_ownerUserId ev = user_id u
           \<and> event_status ev = Some (case raw ''status'' of None \<Rightarrow> ''planning'' | Some s \<Rightarrow> s)
           \<and> event_createdAt ev = now rt \<and> event_updatedAt ev = now rt
           \<and> raw ''title'' = Some (event_title ev)
           \<and> event_description ev = raw ''description''
           \<and> event_startDateTime ev = map_option (new_Date rt) (raw ''startDateTime'')
           \<and> event_endDateTime ev = map_option (new_Date rt) (raw ''endDateTime'')
           \<and> event_timeZone ev = raw ''timeZone''
           \<and> event_locationName ev = raw ''locationName''
           \<and> event_locationAddress ev = raw ''locationAddress''
           \<and> event_locationMapLink ev = raw ''locationMapLink''"
proof -
  obtain title where t: "raw ''title'' = Some title"
    using valid by (auto simp: createEvent_schema_def Let_def split: option.splits)
  from valid t have ok: "z_optional (z_datetime rt) (raw ''startDateTime'')"
     "z_optional (z_datetime rt) (raw ''endDateTime'')"
    and inp: "input = \<lparr>ce_title = title,
                    ce_description = raw ''description'',
                    ce_startDateTime = raw ''startDateTime'',
                    ce_endDateTime = raw ''endDateTime'',
                    ce_timeZone = raw ''timeZone'',
                    ce_locationName = raw ''locationName'',
                    ce_locationAddress = raw ''locationAddress'',
                    ce_locationMapLink = raw ''locationMapLink'',
                    ce_status = Some (z_default ''planning'' (raw ''status''))\<rparr>"
    by (auto simp: createEvent_schema_def Let_def split: if_splits)
  show ?thesis
    using user valid t fresh
    by (simp add: createEvent_def defineAction_def or_throw_def createEvent_handler_def
        requireUser_def inp Let_def insert_Events_def insert_values_def nullish_def
        z_default_def parseOptionalDate_valid [OF ok(1)] parseOptionalDate_valid [OF ok(2)])
qed

text \<open>Witness for C7: alice creates an event from a title alone.\<close>

theorem createEvent_returns_inserted_event_witness:
  "\<exists>ev. createEvent rt0 [''title'' \<mapsto> ''Kickoff''] as_alice db0
            = (Inr ev, db0\<lparr>Events := Events db0 @ [ev]\<rparr>)
        \<and> event_id ev = ''u-1'' \<and> event_ownerUserId ev = ''alice''
        \<and> event_title ev = ''Kickoff'' \<and> event_status ev = Some ''planning''
        \<and> event_createdAt ev = 1000 \<and> event_updatedAt ev = 1000"
proof -
  have user: "locals_user as_alice = Some alice"
    by (simp add: as_alice_def)
  have valid: "createEvent_schema rt0 [''title'' \<mapsto> ''Kickoff'']
                 = Inr \<lparr>ce_title = ''Kickoff'', ce_description = None, ce_startDateTime = None,
                        ce_endDateTime = None, ce_timeZone = None, ce_locationName = None,
                        ce_locationAddress = None, ce_locationMapLink = None,
                        ce_status = Some ''planning''\<rparr>"
    by (simp add: schema_defs)
  have fresh: "randomUUID rt0 \<notin> set (map event_id (Events db0))"
    by (simp add: fixture_defs)
  show ?thesis
    using createEvent_returns_inserted_event [OF user valid fresh]
    by (auto simp: rt0_def alice_def)
qed

lemma alice_signed_in: "locals_user as_alice = Some alice"
  by (simp add: as_alice_def)

lemma alice_owns_launch: "event_ownerUserId launch = user_id alice"
  by (simp add: launch_def alice_def)

lemma updateEvent_owner:
  assumes user: "locals_user ctx = Some u"
    and valid: "updateEvent_schema rt raw = Inr input"
    and found: "first (select_from_where (\<lambda>e. event_id e = ue_id input) (Events db)) = Some existing"
    and owner: "event_ownerUserId existing = user_id u"
  shows "updateEvent rt raw ctx db =
           (Inr (spread_event existing (updateEvent_updates rt input)),
            db\<lparr>Events := update_set_where (set_event (updateEvent_updates rt input))
                             (\<lambda>e. event_id e = ue_id input) (Events db)\<rparr>)"
  using user valid getEventForUser_owner [OF found owner]
  by (simp add: updateEvent_def defineAction_accepted updateEvent_handler_def
      requireUser_Some or_throw_def Let_def)

lemma updateEvent_schema_members:
  assumes "updateEvent_schema rt raw = Inr input"
  shows "ue_title input = raw ''title''" "ue_description input = raw ''description''"
    "ue_startDateTime input = raw ''startDateTime''" "ue_endDateTime input = raw ''endDateTime''"
    "ue_timeZone input = raw ''timeZone''" "ue_locationName input = raw ''locationName''"
    "ue_locationAddress input = raw ''locationAddress''"
    "ue_locationMapLink input = raw ''locationMapLink''" "ue_status input = raw ''status''"
    "z_optional (z_datetime rt) (raw ''startDateTime'')"
    "z_optional (z_datetime rt) (raw ''endDateTime'')"
  using assms
  by (auto simp: updateEvent_schema_def Let_def split: option.splits if_splits)

lemma assigned_date:
  "z_optional (z_datetime rt) v \<Longrightarrow>
   (if v \<noteq> None then assigned (parseOptionalDate rt v) else Absent)
     = when_defined (map_option (new_Date rt) v)"
  by (cases v) (simp_all add: parseOptionalDate_valid assigned_def when_defined_def)

lemma set_col_when_defined: "set_col (when_defined v) old = spread_col old (when_defined v)"
  by (cases v) (simp_all add: set_col_def spread_col_def when_defined_def)

lemma spread_col_when_defined:
  "spread_col old (when_defined v) = (case v of None \<Rightarrow> old | Some x \<Rightarrow> Some x)"
  by (cases v) (simp_all add: spread_col_def when_defined_def)

lemma updateEvent_updates_valid:
  assumes "updateEvent_schema rt raw = Inr input"
  shows "updateEvent_updates rt input =
           \<lparr>eu_title = raw ''title'',
            eu_description = when_defined (raw ''description''),
            eu_startDateTime = when_defined (map_option (new_Date rt) (raw ''startDateTime'')),
            eu_endDateTime = when_defined (map_option (new_Date rt) (raw ''endDateTime'')),
            eu_timeZone = when_defined (raw ''timeZone''),
            eu_locationName = when_defined (raw ''locationName''),
            eu_locationAddress = when_defined (raw ''locationAddress''),
            eu_locationMapLink = when_defined (raw ''locationMapLink''),
            eu_status = when_defined (raw ''status''),
            eu_updatedAt = Some (now rt)\<rparr>"
proof -
  note m = updateEvent_schema_members [OF assms]
  have s: "(if ue_startDateTime input \<noteq> None
            then assigned (parseOptionalDate rt (ue_startDateTime input)) else Absent)
             = when_defined (map_option (new_Date rt) (raw ''startDateTime''))"
    unfolding m(3) by (rule assigned_date [OF m(10)])
  have e: "(if ue_endDateTime input \<noteq> None
            then assigned (parseOptionalDate rt (ue_endDateTime input)) else Absent)
             = when_defined (map_option (new_Date rt) (raw ''endDateTime''))"
    unfolding m(4) by (rule assigned_date [OF m(11)])
  show ?thesis
    unfolding updateEvent_updates_def s e by (simp add: m(1,2,5-9))
qed

lemma update_set_where_nth:
  "n < length rows \<Longrightarrow> \<not> c (rows ! n) \<Longrightarrow> update_set_where s c rows ! n = rows ! n"
  by (simp add: update_set_where_def)

lemma update_set_where_length: "length (update_set_where s c rows) = length rows"
  by (simp add: update_set_where_def)

text \<open>
  C8. When \<open>updateEvent\<close> succeeds (signed-in owner, accepted input), the row it returns
  is also the row then stored under that id. In it every column whose member is absent
  from the input has its previous value, every column whose member is present has the
  input's value (a timestamp text converted by \<^verbatim>\<open>new Date\<close>), \<open>updatedAt\<close> is the
  clock reading of the call, and \<open>id\<close>, \<open>ownerUserId\<close> and \<open>createdAt\<close> are those of the
  existing row. Rows with another id, and the other two tables, are untouched.
\<close>

theorem updateEvent_changes_supplied_fields:
  assumes user: "locals_user ctx = Some u"
    and valid: "updateEvent_schema rt raw = Inr input"
    and found: "first (select_from_where (\<lambda>e. event_id e = ue_id input) (Events db)) = Some existing"
    and owner: "event_ownerUserId existing = user_id u"
  shows "\<exists>ev db'. updateEvent rt raw ctx db = (Inr ev, db')
           \<and> first (select_from_where (\<lambda>e. event_id e = ue_id input) (Events db')) = Some ev
           \<and> length (Events db') = length (Events db)
           \<and> (\<forall>n < length (Events db). event_id (Events db ! n) \<noteq> ue_id input
                 \<longrightarrow> Events db' ! n = Events db ! n)
           \<and> EventTasks db' = EventTasks db \<and> EventGuests db' = EventGuests db
           \<and> event_id ev = event_id existing
           \<and> event_ownerUserId ev = event_ownerUserId existing
           \<and> event_createdAt ev = event_createdAt existing
           \<and> event_updatedAt ev = now rt
           \<and> event_title ev = (case raw ''title'' of None \<Rightarrow> event_title existing | Some x \<Rightarrow> x)
           \<and> event_description ev
               = (case raw ''description'' of None \<Rightarrow> event_description existing | Some x \<Rightarrow> Some x)
           \<and> event_startDateTime ev
               = (case raw ''startDateTime'' of None \<Rightarrow> event_startDateTime existing
                  | Some x \<Rightarrow> Some (new_Date rt x))
           \<and> event_endDateTime ev
               = (case raw ''endDateTime'' of None \<Rightarrow> event_endDateTime existing
                  | Some x \<Rightarrow> Some (new_Date rt x))
           \<and> event_timeZone ev
               = (case raw ''timeZone'' of None \<Rightarrow> event_timeZone existing | Some x \<Rightarrow> Some x)
           \<and> event_locationName ev
               = (case raw ''locationName'' of None \<Rightarrow> event_locationName existing | Some x \<Rightarrow> Some x)
           \<and> event_locationAddress ev
               = (case raw ''locationAddress'' of None \<Rightarrow> event_locationAddress existing
                  | Some x \<Rightarrow> Some x)
           \<and> event_locationMapLink ev
               = (case raw ''locationMapLink'' of None \<Rightarrow> event_locationMapLink existing
                  | Some x \<Rightarrow> Some x)
           \<and> event_status ev
               = (case raw ''status'' of None \<Rightarrow> event_status existing | Some x \<Rightarrow> Some x)"
proof -
  let ?u = "updateEvent_updates rt input"
  let ?ev = "spread_event existing ?u"
  let ?db = "db\<lparr>Events := update_set_where (set_event ?u)
                             (\<lambda>e. event_id e = ue_id input) (Events db)\<rparr>"
  note u = updateEvent_updates_valid [OF valid]
  have run: "updateEvent rt raw ctx db = (Inr ?ev, ?db)"
    by (rule updateEvent_owner [OF user valid found owner])
  have same: "set_event ?u e = spread_event e ?u" for e
    by (simp add: u set_event_def spread_event_def set_col_when_defined)
  have keeps: "event_id (set_event ?u e) = event_id e" for e
    by (simp add: set_event_def)
  have stored: "first (select_from_where (\<lambda>e. event_id e = ue_id input) (Events ?db)) = Some ?ev"
  proof -
    have "first (select_from_where (\<lambda>e. event_id e = ue_id input) (Events ?db))
            = map_option (set_event ?u)
                (first (select_from_where (\<lambda>e. event_id e = ue_id input) (Events db)))"
      by (simp add: first_select_update keeps)
    then show ?thesis
      by (simp add: found same)
  qed
  have frame: "length (Events ?db) = length (Events db)"
    "\<forall>n < length (Events db). event_id (Events db ! n) \<noteq> ue_id input
        \<longrightarrow> Events ?db ! n = Events db ! n"
    "EventTasks ?db = EventTasks db" "EventGuests ?db = EventGuests db"
    by (simp_all add: update_set_where_length update_set_where_nth)
  have kept: "event_id ?ev = event_id existing"
    "event_ownerUserId ?ev = event_ownerUserId existing"
    "event_createdAt ?ev = event_createdAt existing"
    "event_updatedAt ?ev = now rt"
    by (simp_all add: u spread_event_def override_def)
  have merged: "event_title ?ev = (case raw ''title'' of None \<Rightarrow> event_title existing | Some x \<Rightarrow> x)"
    "event_description ?ev
       = (case raw ''description'' of None \<Rightarrow> event_description existing | Some x \<Rightarrow> Some x)"
    "event_startDateTime ?ev
       = (case raw ''startDateTime'' of None \<Rightarrow> event_startDateTime existing
          | Some x \<Rightarrow> Some (new_Date rt x))"
    "event_endDateTime ?ev
       = (case raw ''endDateTime'' of None \<Rightarrow> event_endDateTime existing
          | Some x \<Rightarrow> Some (new_Date rt x))"
    "event_timeZone ?ev
       = (case raw ''timeZone'' of None \<Rightarrow> event_timeZone existing | Some x \<Rightarrow> Some x)"
    "event_locationName ?ev
       = (case raw ''locationName'' of None \<Rightarrow> event_locationName existing | Some x \<Rightarrow> Some x)"
    "event_locationAddress ?ev
       = (case raw ''locationAddress'' of None \<Rightarrow> event_locationAddress existing
          | Some x \<Rightarrow> Some x)"
    "event_locationMapLink ?ev
       = (case raw ''locationMapLink'' of None \<Rightarrow> event_locationMapLink existing
          | Some x \<Rightarrow> Some x)"
    "event_status ?ev
       = (case raw ''status'' of None \<Rightarrow> event_status existing | Some x \<Rightarrow> Some x)"
    by (simp_all add: u spread_event_def override_def spread_col_when_defined
        split: option.splits)
  show ?thesis
    using run stored frame kept merged
    by (intro exI [of _ ?ev] exI [of _ ?db] conjI) assumption+
qed

text \<open>Witness for C8: alice confirms her event; only the status and \<open>updatedAt\<close> move.\<close>

theorem updateEvent_changes_supplied_fields_witness:
  "\<exists>ev db'. updateEvent rt0 [''id'' \<mapsto> ''e1'', ''status'' \<mapsto> ''confirmed''] as_alice db0
              = (Inr ev, db')
         \<and> first (select_from_where (\<lambda>e. event_id e = ''e1'') (Events db')) = Some ev
         \<and> event_status ev = Some ''confirmed'' \<and> event_updatedAt ev = 1000
         \<and> event_title ev = ''Launch'' \<and> event_description ev = Some ''Product launch''
         \<and> event_ownerUserId ev = ''alice'' \<and> event_createdAt ev = 10"
proof -
  have valid: "updateEvent_schema rt0 [''id'' \<mapsto> ''e1'', ''status'' \<mapsto> ''confirmed'']
              = Inr \<lparr>ue_id = ''e1'', ue_title = None, ue_description = None,
                     ue_startDateTime = None, ue_endDateTime = None, ue_timeZone = None,
                     ue_locationName = None, ue_locationAddress = None,
                     ue_locationMapLink = None, ue_status = Some ''confirmed''\<rparr>"
    (is "_ = Inr ?input")
    by (simp add: schema_defs)
  have found: "first (select_from_where (\<lambda>e. event_id e = ue_id ?input) (Events db0)) = Some launch"
    using first_launch by simp
  have vals: "now rt0 = 1000" "event_title launch = ''Launch''"
    "event_description launch = Some ''Product launch''"
    "event_ownerUserId launch = ''alice''" "event_createdAt launch = 10"
    by (simp_all add: rt0_def launch_def)
  show ?thesis
    using updateEvent_changes_supplied_fields [OF alice_signed_in valid found alice_owns_launch]
    by (clarsimp simp: vals)
qed

subsection \<open>Deleting\<close>




lemma deleteEventTask_twice:
  assumes user: "locals_user ctx = Some u" and input: "raw ''id'' = Some i"
    and deleted: "deleteEventTask raw ctx db = (Inr (), db')"
  shows "select_from_where (\<lambda>t. task_id t = i) (EventTasks db') = []
         \<and> deleteEventTask raw ctx db' = (Inl NOT_FOUND, db')
         \<and> (\<forall>ctx2. \<exists>e. deleteEventTask raw ctx2 db' = (Inl e, db'))"
proof (cases "first (select_from_where (\<lambda>t. task_id t = i) (EventTasks db))")
  case None
  then show ?thesis
    using deleted deleteEventTask_absent [where raw = raw, OF user input None] by simp
next
  case (Some t)
  from deleted have db': "db' = db\<lparr>EventTasks := delete_where (\<lambda>t. task_id t = i) (EventTasks db)\<rparr>"
    by (cases "getEventForUser (user_id u) (task_eventId t) db")
       (simp_all add: deleteEventTask_found [where raw = raw, OF user input Some])
  have gone: "select_from_where (\<lambda>t. task_id t = i) (EventTasks db') = []"
    by (simp add: db' select_delete)
  then have none: "first (select_from_where (\<lambda>t. task_id t = i) (EventTasks db')) = None"
    by (simp add: first_def)
  have "\<exists>e. deleteEventTask raw ctx2 db' = (Inl e, db')" for ctx2
    using input none
    by (cases "locals_user ctx2")
       (simp_all add: deleteEventTask_def defineAction_accepted id_schema_Some
         deleteEventTask_handler_def requireUser_def or_throw_def)
  then show ?thesis
    using gone deleteEventTask_absent [where raw = raw, OF user input none] by blast
qed

lemma deleteEventGuest_twice:
  assumes user: "locals_user ctx = Some u" and input: "raw ''id'' = Some i"
    and deleted: "deleteEventGuest raw ctx db = (Inr (), db')"
  shows "select_from_where (\<lambda>g. guest_id g = i) (EventGuests db') = []
         \<and> deleteEventGuest raw ctx db' = (Inl NOT_FOUND, db')
         \<and> (\<forall>ctx2. \<exists>e. deleteEventGuest raw ctx2 db' = (Inl e, db'))"
proof (cases "first (select_from_where (\<lambda>g. guest_id g = i) (EventGuests db))")
  case None
  then show ?thesis
    using deleted deleteEventGuest_absent [where raw = raw, OF user input None] by simp
next
  case (Some g)
  from deleted have db': "db' = db\<lparr>EventGuests := delete_where (\<lambda>g. guest_id g = i) (EventGuests db)\<rparr>"
    by (cases "getEventForUser (user_id u) (guest_eventId g) db")
       (simp_all add: deleteEventGuest_found [where raw = raw, OF user input Some])
  have gone: "select_from_where (\<lambda>g. guest_id g = i) (EventGuests db') = []"
    by (simp add: db' select_delete)
  then have none: "first (select_from_where (\<lambda>g. guest_id g = i) (EventGuests db')) = None"
    by (simp add: first_def)
  have "\<exists>e. deleteEventGuest raw ctx2 db' = (Inl e, db')" for ctx2
    using input none
    by (cases "locals_user ctx2")
       (simp_all add: deleteEventGuest_def defineAction_accepted id_schema_Some
         deleteEventGuest_handler_def requireUser_def or_throw_def)
  then show ?thesis
    using gone deleteEventGuest_absent [where raw = raw, OF user input none] by blast
qed

text \<open>
  C6. For a signed-in caller and an input carrying the id \<open>i\<close>:
  \<^item> if no task has that id, \<open>deleteEventTask\<close> fails with \<open>NOT_FOUND\<close> and the store is as
    it was;
  \<^item> if the task \<open>t\<close> is found, the outcome is decided by \<open>getEventForUser\<close> on the
    caller and on \<open>t\<close>'s own stored \<open>eventId\<close> (the input has no other event to offer):
    its error is the action's error and the store is as it was, and only when it
    returns is the task deleted;
  \<^item> after a successful delete no task has that id, the same call again fails with
    \<open>NOT_FOUND\<close>, and the call fails in every context.

  The same three facts hold of \<open>deleteEventGuest\<close> over \<open>EventGuests\<close>.
\<close>

theorem delete_child_contract:
  assumes user: "locals_user ctx = Some u" and input: "raw ''id'' = Some i"
  shows "(first (select_from_where (\<lambda>t. task_id t = i) (EventTasks db)) = None
            \<longrightarrow> deleteEventTask raw ctx db = (Inl NOT_FOUND, db))
       \<and> (\<forall>t. first (select_from_where (\<lambda>t. task_id t = i) (EventTasks db)) = Some t
            \<longrightarrow> deleteEventTask raw ctx db =
                  (case getEventForUser (user_id u) (task_eventId t) db of
                     Inl e \<Rightarrow> (Inl e, db)
                   | Inr _ \<Rightarrow> (Inr (), db\<lparr>EventTasks :=
                                 delete_where (\<lambda>t. task_id t = i) (EventTasks db)\<rparr>)))
       \<and> (\<forall>db'. deleteEventTask raw ctx db = (Inr (), db')
            \<longrightarrow> select_from_where (\<lambda>t. task_id t = i) (EventTasks db') = []
                \<and> deleteEventTask raw ctx db' = (Inl NOT_FOUND, db')
                \<and> (\<forall>ctx2. \<exists>e. deleteEventTask raw ctx2 db' = (Inl e, db')))
       \<and> (first (select_from_where (\<lambda>g. guest_id g = i) (EventGuests db)) = None
            \<longrightarrow> deleteEventGuest raw ctx db = (Inl NOT_FOUND, db))
       \<and> (\<forall>g. first (select_from_where (\<lambda>g. guest_id g = i) (EventGuests db)) = Some g
            \<longrightarrow> deleteEventGuest raw ctx db =
                  (case getEventForUser (user_id u) (guest_eventId g) db of
                     Inl e \<Rightarrow> (Inl e, db)
                   | Inr _ \<Rightarrow> (Inr (), db\<lparr>EventGuests :=
                                 delete_where (\<lambda>g. guest_id g = i) (EventGuests db)\<rparr>)))
       \<and> (\<forall>db'. deleteEventGuest raw ctx db = (Inr (), db')
            \<longrightarrow> select_from_where (\<lambda>g. guest_id g = i) (EventGuests db') = []
                \<and> deleteEventGuest raw ctx db' = (Inl NOT_FOUND, db')
                \<and> (\<forall>ctx2. \<exists>e. deleteEventGuest raw ctx2 db' = (Inl e, db')))"
  using deleteEventTask_absent [where raw = raw, OF user input] deleteEventTask_found [where raw = raw, OF user input]
    deleteEventTask_twice [where raw = raw, OF user input]
    deleteEventGuest_absent [where raw = raw, OF user input] deleteEventGuest_found [where raw = raw, OF user input]
    deleteEventGuest_twice [where raw = raw, OF user input]
  by (intro conjI allI impI) blast+

text \<open>
  Witness for C6: alice deletes her task \<open>t1\<close> and her guest \<open>g1\<close>; doing either again
  is \<open>NOT_FOUND\<close>.
\<close>

theorem delete_child_contract_witness:
  "deleteEventTask [''id'' \<mapsto> ''t1''] as_alice db0 = (Inr (), db0\<lparr>EventTasks := [balloons]\<rparr>)
   \<and> deleteEventTask [''id'' \<mapsto> ''t1''] as_alice (db0\<lparr>EventTasks := [balloons]\<rparr>)
        = (Inl NOT_FOUND, db0\<lparr>EventTasks := [balloons]\<rparr>)
   \<and> deleteEventGuest [''id'' \<mapsto> ''g1''] as_alice db0 = (Inr (), db0\<lparr>EventGuests := [ben]\<rparr>)
   \<and> deleteEventGuest [''id'' \<mapsto> ''g1''] as_alice (db0\<lparr>EventGuests := [ben]\<rparr>)
        = (Inl NOT_FOUND, db0\<lparr>EventGuests := [ben]\<rparr>)"
proof -
  have input: "[''id'' \<mapsto> ''t1''] ''id'' = Some ''t1''" "[''id'' \<mapsto> ''g1''] ''id'' = Some ''g1''"
    by simp_all
  have t: "first (select_from_where (\<lambda>t. task_id t = ''t1'') (EventTasks db0)) = Some cake"
    "delete_where (\<lambda>t. task_id t = ''t1'') (EventTasks db0) = [balloons]"
    "getEventForUser (user_id alice) (task_eventId cake) db0 = Inr launch"
    by (simp_all add: fixture_defs run_defs)
  have g: "first (select_from_where (\<lambda>g. guest_id g = ''g1'') (EventGuests db0)) = Some ana"
    "delete_where (\<lambda>g. guest_id g = ''g1'') (EventGuests db0) = [ben]"
    "getEventForUser (user_id alice) (guest_eventId ana) db0 = Inr launch"
    by (simp_all add: fixture_defs run_defs)
  note task = delete_child_contract [where raw = "[''id'' \<mapsto> ''t1'']", OF alice_signed_in input(1), of db0]
  note guest = delete_child_contract [where raw = "[''id'' \<mapsto> ''g1'']", OF alice_signed_in input(2), of db0]
  have 1: "deleteEventTask [''id'' \<mapsto> ''t1''] as_alice db0 = (Inr (), db0\<lparr>EventTasks := [balloons]\<rparr>)"
    using task t by simp
  have 2: "deleteEventGuest [''id'' \<mapsto> ''g1''] as_alice db0 = (Inr (), db0\<lparr>EventGuests := [ben]\<rparr>)"
    using guest g by simp
  show ?thesis
    using task guest 1 2 by blast
qed

subsection \<open>Upserting tasks and guests\<close>

lemma upsertEventTask_create:
  assumes user: "locals_user ctx = Some u"
    and found: "first (select_from_where (\<lambda>e. event_id e = eid) (Events db)) = Some ev"
    and owner: "event_ownerUserId ev = user_id u"
    and valid: "upsertEventTask_schema rt raw = Inr input"
    and eventId: "raw ''eventId'' = Some eid"
    and falsy: "\<not> truthy (raw ''id'')"
  shows "upsertEventTask rt raw ctx db =
           (let task = \<lparr>task_id = randomUUID rt, task_eventId = eid,
                        task_userId = ut_userId input, task_title = ut_title input,
                        task_description = ut_description input,
                        task_dueDate = parseOptionalDate rt (ut_dueDate input),
                        task_status = nullish (ut_status input) (Some ''todo''),
                        task_priority = ut_priority input,
                        task_createdAt = now rt, task_updatedAt = now rt\<rparr>
            in if randomUUID rt \<in> set (map task_id (EventTasks db))
               then (Inl INTERNAL_SERVER_ERROR, db)
               else (Inr task, db\<lparr>EventTasks := EventTasks db @ [task]\<rparr>))"
proof -
  have e: "ut_eventId input = eid" "ut_id input = raw ''id''"
    using upsertEventTask_schema_eventId [OF valid] eventId by simp_all
  have "event_id ev = eid"
    using first_select_holds [OF found] by simp
  then show ?thesis
    using user valid falsy getEventForUser_owner [OF found owner] e
      found_references_Events [OF found]
    by (simp add: upsertEventTask_def defineAction_accepted upsertEventTask_handler_def
        requireUser_Some or_throw_def Let_def insert_EventTasks_def insert_values_def)
qed

lemma upsertEventGuest_create:
  assumes user: "locals_user ctx = Some u"
    and found: "first (select_from_where (\<lambda>e. event_id e = eid) (Events db)) = Some ev"
    and owner: "event_ownerUserId ev = user_id u"
    and valid: "upsertEventGuest_schema rt raw = Inr input"
    and eventId: "raw ''eventId'' = Some eid"
    and falsy: "\<not> truthy (raw ''id'')"
  shows "upsertEventGuest rt raw ctx db =
           (let guest = \<lparr>guest_id = randomUUID rt, guest_eventId = eid,
                         guest_name = ug_name input, guest_email = ug_email input,
                         guest_phone = ug_phone input, guest_rsvpStatus = ug_rsvpStatus input,
                         guest_notes = ug_notes input,
                         guest_invitedAt = parseOptionalDate rt (ug_invitedAt input),
                         guest_respondedAt = parseOptionalDate rt (ug_respondedAt input),
                         guest_createdAt = now rt\<rparr>
            in if randomUUID rt \<in> set (map guest_id (EventGuests db))
               then (Inl INTERNAL_SERVER_ERROR, db)
               else (Inr guest, db\<lparr>EventGuests := EventGuests db @ [guest]\<rparr>))"
proof -
  have e: "ug_eventId input = eid" "ug_id input = raw ''id''"
    using upsertEventGuest_schema_eventId [OF valid] eventId by simp_all
  have "event_id ev = eid"
    using first_select_holds [OF found] by simp
  then show ?thesis
    using user valid falsy getEventForUser_owner [OF found owner] e
      found_references_Events [OF found]
    by (simp add: upsertEventGuest_def defineAction_accepted upsertEventGuest_handler_def
        requireUser_Some or_throw_def Let_def insert_EventGuests_def insert_values_def)
qed

lemma upsertEventTask_existing:
  assumes user: "locals_user ctx = Some u"
    and found: "first (select_from_where (\<lambda>e. event_id e = eid) (Events db)) = Some ev"
    and owner: "event_ownerUserId ev = user_id u"
    and valid: "upsertEventTask_schema rt raw = Inr input"
    and eventId: "raw ''eventId'' = Some eid"
    and id: "raw ''id'' = Some i" and nonempty: "i \<noteq> []"
    and existing: "first (select_from_where (\<lambda>t. task_id t = i) (EventTasks db)) = Some t"
  shows "upsertEventTask rt raw ctx db =
           (if task_eventId t \<noteq> eid then (Inl FORBIDDEN, db)
            else (Inr (spread_task t (upsertEventTask_updates rt input t)),
                  db\<lparr>EventTasks := update_set_where (set_task (upsertEventTask_updates rt input t))
                                       (\<lambda>t. task_id t = i) (EventTasks db)\<rparr>))"
proof -
  have e: "ut_eventId input = eid" "ut_id input = Some i"
    using upsertEventTask_schema_eventId [OF valid] eventId id by simp_all
  have "event_id ev = eid"
    using first_select_holds [OF found] by simp
  then show ?thesis
    using user valid nonempty existing getEventForUser_owner [OF found owner] e
    by (simp add: upsertEventTask_def defineAction_accepted upsertEventTask_handler_def
        requireUser_Some or_throw_def Let_def truthy_def)
qed

lemma upsertEventGuest_existing:
  assumes user: "locals_user ctx = Some u"
    and found: "first (select_from_where (\<lambda>e. event_id e = eid) (Events db)) = Some ev"
    and owner: "event_ownerUserId ev = user_id u"
    and valid: "upsertEventGuest_schema rt raw = Inr input"
    and eventId: "raw ''eventId'' = Some eid"
    and id: "raw ''id'' = Some i" and nonempty: "i \<noteq> []"
    and existing: "first (select_from_where (\<lambda>g. guest_id g = i) (EventGuests db)) = Some g"
  shows "upsertEventGuest rt raw ctx db =
           (if guest_eventId g \<noteq> eid then (Inl FORBIDDEN, db)
            else (Inr (spread_guest g (upsertEventGuest_updates rt input)),
                  db\<lparr>EventGuests := update_set_where (set_guest (upsertEventGuest_updates rt input))
                                        (\<lambda>g. guest_id g = i) (EventGuests db)\<rparr>))"
proof -
  have e: "ug_eventId input = eid" "ug_id input = Some i"
    using upsertEventGuest_schema_eventId [OF valid] eventId id by simp_all
  have "event_id ev = eid"
    using first_select_holds [OF found] by simp
  then show ?thesis
    using user valid nonempty existing getEventForUser_owner [OF found owner] e
    by (simp add: upsertEventGuest_def defineAction_accepted upsertEventGuest_handler_def
        requireUser_Some or_throw_def Let_def truthy_def)
qed

lemma select_append_fresh:
  "x \<notin> f ` set rows \<Longrightarrow> select_from_where (\<lambda>r. f r = x) (rows @ [new]) =
     (if f new = x then [new] else [])"
  by (auto simp: select_from_where_def filter_empty_conv)

lemma upsertEventTask_create_effect:
  assumes user: "locals_user ctx = Some u"
    and found: "first (select_from_where (\<lambda>e. event_id e = eid) (Events db)) = Some ev"
    and owner: "event_ownerUserId ev = user_id u"
    and valid: "upsertEventTask_schema rt raw = Inr input"
    and eventId: "raw ''eventId'' = Some eid"
    and noid: "raw ''id'' = None"
  shows "(\<forall>t db'. upsertEventTask rt raw ctx db = (Inr t, db')
            \<longrightarrow> db' = db\<lparr>EventTasks := EventTasks db @ [t]\<rparr>
                \<and> task_id t = randomUUID rt \<and> task_eventId t = eid
                \<and> task_id t \<notin> set (map task_id (EventTasks db))
                \<and> select_from_where (\<lambda>r. task_id r = task_id t) (EventTasks db') = [t])
         \<and> (randomUUID rt \<notin> set (map task_id (EventTasks db))
              \<longrightarrow> (\<exists>t db'. upsertEventTask rt raw ctx db = (Inr t, db')))
         \<and> (randomUUID rt \<in> set (map task_id (EventTasks db))
              \<longrightarrow> upsertEventTask rt raw ctx db = (Inl INTERNAL_SERVER_ERROR, db))"
proof -
  have falsy: "\<not> truthy (raw ''id'')"
    by (simp add: noid truthy_def)
  note run = upsertEventTask_create [OF user found owner valid eventId falsy]
  show ?thesis
  proof (cases "randomUUID rt \<in> set (map task_id (EventTasks db))")
    case True
    then show ?thesis
      by (simp add: run Let_def)
  next
    case False
    then have "randomUUID rt \<notin> task_id ` set (EventTasks db)"
      by simp
    with False show ?thesis
      by (auto simp: run Let_def select_append_fresh)
  qed
qed

lemma upsertEventGuest_create_effect:
  assumes user: "locals_user ctx = Some u"
    and found: "first (select_from_where (\<lambda>e. event_id e = eid) (Events db)) = Some ev"
    and owner: "event_ownerUserId ev = user_id u"
    and valid: "upsertEventGuest_schema rt raw = Inr input"
    and eventId: "raw ''eventId'' = Some eid"
    and noid: "raw ''id'' = None"
  shows "(\<forall>g db'. upsertEventGuest rt raw ctx db = (Inr g, db')
            \<longrightarrow> db' = db\<lparr>EventGuests := EventGuests db @ [g]\<rparr>
                \<and> guest_id g = randomUUID rt \<and> guest_eventId g = eid
                \<and> guest_id g \<notin> set (map guest_id (EventGuests db))
                \<and> select_from_where (\<lambda>r. guest_id r = guest_id g) (EventGuests db') = [g])
         \<and> (randomUUID rt \<notin> set (map guest_id (EventGuests db))
              \<longrightarrow> (\<exists>g db'. upsertEventGuest rt raw ctx db = (Inr g, db')))
         \<and> (randomUUID rt \<in> set (map guest_id (EventGuests db))
              \<longrightarrow> upsertEventGuest rt raw ctx db = (Inl INTERNAL_SERVER_ERROR, db))"
proof -
  have falsy: "\<not> truthy (raw ''id'')"
    by (simp add: noid truthy_def)
  note run = upsertEventGuest_create [OF user found owner valid eventId falsy]
  show ?thesis
  proof (cases "randomUUID rt \<in> set (map guest_id (EventGuests db))")
    case True
    then show ?thesis
      by (simp add: run Let_def)
  next
    case False
    then have "randomUUID rt \<notin> guest_id ` set (EventGuests db)"
      by simp
    with False show ?thesis
      by (auto simp: run Let_def select_append_fresh)
  qed
qed

lemma upsertEventTask_refused:
  assumes user: "locals_user ctx = Some u"
    and found: "first (select_from_where (\<lambda>e. event_id e = eid) (Events db)) = Some ev"
    and owner: "event_ownerUserId ev = user_id u"
    and valid: "upsertEventTask_schema rt raw = Inr input"
    and eventId: "raw ''eventId'' = Some eid"
    and id: "raw ''id'' = Some i" and nonempty: "i \<noteq> []"
    and existing: "first (select_from_where (\<lambda>t. task_id t = i) (EventTasks db)) = Some t"
    and other: "task_eventId t \<noteq> eid"
  shows "upsertEventTask rt raw ctx db = (Inl FORBIDDEN, db)"
  using upsertEventTask_existing [OF user found owner valid eventId id nonempty existing] other
  by simp

lemma upsertEventGuest_refused:
  assumes user: "locals_user ctx = Some u"
    and found: "first (select_from_where (\<lambda>e. event_id e = eid) (Events db)) = Some ev"
    and owner: "event_ownerUserId ev = user_id u"
    and valid: "upsertEventGuest_schema rt raw = Inr input"
    and eventId: "raw ''eventId'' = Some eid"
    and id: "raw ''id'' = Some i" and nonempty: "i \<noteq> []"
    and existing: "first (select_from_where (\<lambda>g. guest_id g = i) (EventGuests db)) = Some g"
    and other: "guest_eventId g \<noteq> eid"
  shows "upsertEventGuest rt raw ctx db = (Inl FORBIDDEN, db)"
  using upsertEventGuest_existing [OF user found owner valid eventId id nonempty existing] other
  by simp

text \<open>
  C3. Let the signed-in caller own the event \<open>eid\<close>, and let the input pass the schema
  and name \<open>eid\<close> as its \<open>eventId\<close>.
  \<^item> Without an id, \<open>upsertEventTask\<close> never touches an existing row. Whenever it
    succeeds, the store it leaves is the old one with exactly one row appended to
    \<open>EventTasks\<close>, which is the row returned; the row belongs to \<open>eid\<close>, its id is the one
    that \<^verbatim>\<open>crypto.randomUUID()\<close> generated, no earlier row has that id, and it is the
    only row of the table with that id. The call succeeds when the generated value is
    not yet an id of the table; otherwise the primary key refuses the insert, the
    action ends with \<open>INTERNAL_SERVER_ERROR\<close> and the store is as it was.
  \<^item> With a (non-empty) id that matches a stored task of another event, the call fails
    with \<open>FORBIDDEN\<close> and returns the store as it was.

  The same holds of \<open>upsertEventGuest\<close> over \<open>EventGuests\<close>. Ids are generated UUIDs, and
  the handler's truthiness test \<^verbatim>\<open>if (input.id)\<close> treats the empty string as no id,
  hence the side condition \<open>i \<noteq> []\<close>.
\<close>

theorem upsert_creates_or_refuses_other_event:
  assumes user: "locals_user ctx = Some u"
    and found: "first (select_from_where (\<lambda>e. event_id e = eid) (Events db)) = Some ev"
    and owner: "event_ownerUserId ev = user_id u"
  shows "(\<forall>raw input. upsertEventTask_schema rt raw = Inr input
              \<and> raw ''eventId'' = Some eid \<and> raw ''id'' = None
            \<longrightarrow> (\<forall>t db'. upsertEventTask rt raw ctx db = (Inr t, db')
                   \<longrightarrow> db' = db\<lparr>EventTasks := EventTasks db @ [t]\<rparr>
                       \<and> task_id t = randomUUID rt \<and> task_eventId t = eid
                       \<and> task_id t \<notin> set (map task_id (EventTasks db))
                       \<and> select_from_where (\<lambda>r. task_id r = task_id t) (EventTasks db') = [t])
                \<and> (randomUUID rt \<notin> set (map task_id (EventTasks db))
                     \<longrightarrow> (\<exists>t db'. upsertEventTask rt raw ctx db = (Inr t, db')))
                \<and> (randomUUID rt \<in> set (map task_id (EventTasks db))
                     \<longrightarrow> upsertEventTask rt raw ctx db = (Inl INTERNAL_SERVER_ERROR, db)))
       \<and> (\<forall>raw input i t. upsertEventTask_schema rt raw = Inr input
              \<and> raw ''eventId'' = Some eid \<and> raw ''id'' = Some i \<and> i \<noteq> []
              \<and> first (select_from_where (\<lambda>t. task_id t = i) (EventTasks db)) = Some t
              \<and> task_eventId t \<noteq> eid
            \<longrightarrow> upsertEventTask rt raw ctx db = (Inl FORBIDDEN, db))
       \<and> (\<forall>raw input. upsertEventGuest_schema rt raw = Inr input
              \<and> raw ''eventId'' = Some eid \<and> raw ''id'' = None
            \<longrightarrow> (\<forall>g db'. upsertEventGuest rt raw ctx db = (Inr g, db')
                   \<longrightarrow> db' = db\<lparr>EventGuests := EventGuests db @ [g]\<rparr>
                       \<and> guest_id g = randomUUID rt \<and> guest_eventId g = eid
                       \<and> guest_id g \<notin> set (map guest_id (EventGuests db))
                       \<and> select_from_where (\<lambda>r. guest_id r = guest_id g) (EventGuests db') = [g])
                \<and> (randomUUID rt \<notin> set (map guest_id (EventGuests db))
                     \<longrightarrow> (\<exists>g db'. upsertEventGuest rt raw ctx db = (Inr g, db')))
                \<and> (randomUUID rt \<in> set (map guest_id (EventGuests db))
                     \<longrightarrow> upsertEventGuest rt raw ctx db = (Inl INTERNAL_SERVER_ERROR, db)))
       \<and> (\<forall>raw input i g. upsertEventGuest_schema rt raw = Inr input
              \<and> raw ''eventId'' = Some eid \<and> raw ''id'' = Some i \<and> i \<noteq> []
              \<and> first (select_from_where (\<lambda>g. guest_id g = i) (EventGuests db)) = Some g
              \<and> guest_eventId g \<noteq> eid
            \<longrightarrow> upsertEventGuest rt raw ctx db = (Inl FORBIDDEN, db))"
proof -
  have A: "(\<forall>raw input. upsertEventTask_schema rt raw = Inr input
              \<and> raw ''eventId'' = Some eid \<and> raw ''id'' = None
            \<longrightarrow> (\<forall>t db'. upsertEventTask rt raw ctx db = (Inr t, db')
                   \<longrightarrow> db' = db\<lparr>EventTasks := EventTasks db @ [t]\<rparr>
                       \<and> task_id t = randomUUID rt \<and> task_eventId t = eid
                       \<and> task_id t \<notin> set (map task_id (EventTasks db))
                       \<and> select_from_where (\<lambda>r. task_id r = task_id t) (EventTasks db') = [t])
                \<and> (randomUUID rt \<notin> set (map task_id (EventTasks db))
                     \<longrightarrow> (\<exists>t db'. upsertEventTask rt raw ctx db = (Inr t, db')))
                \<and> (randomUUID rt \<in> set (map task_id (EventTasks db))
                     \<longrightarrow> upsertEventTask rt raw ctx db = (Inl INTERNAL_SERVER_ERROR, db)))"
    by (intro allI impI, elim conjE)
       (rule upsertEventTask_create_effect [OF user found owner]; assumption)
  have B: "(\<forall>raw input i t. upsertEventTask_schema rt raw = Inr input
              \<and> raw ''eventId'' = Some eid \<and> raw ''id'' = Some i \<and> i \<noteq> []
              \<and> first (select_from_where (\<lambda>t. task_id t = i) (EventTasks db)) = Some t
              \<and> task_eventId t \<noteq> eid
            \<longrightarrow> upsertEventTask rt raw ctx db = (Inl FORBIDDEN, db))"
    by (intro allI impI, elim conjE)
       (rule upsertEventTask_refused [OF user found owner]; assumption)
  have C: "(\<forall>raw input. upsertEventGuest_schema rt raw = Inr input
              \<and> raw ''eventId'' = Some eid \<and> raw ''id'' = None
            \<longrightarrow> (\<forall>g db'. upsertEventGuest rt raw ctx db = (Inr g, db')
                   \<longrightarrow> db' = db\<lparr>EventGuests := EventGuests db @ [g]\<rparr>
                       \<and> guest_id g = randomUUID rt \<and> guest_eventId g = eid
                       \<and> guest_id g \<notin> set (map guest_id (EventGuests db))
                       \<and> select_from_where (\<lambda>r. guest_id r = guest_id g) (EventGuests db') = [g])
                \<and> (randomUUID rt \<notin> set (map guest_id (EventGuests db))
                     \<longrightarrow> (\<exists>g db'. upsertEventGuest rt raw ctx db = (Inr g, db')))
                \<and> (randomUUID rt \<in> set (map guest_id (EventGuests db))
                     \<longrightarrow> upsertEventGuest rt raw ctx db = (Inl INTERNAL_SERVER_ERROR, db)))"
    by (intro allI impI, elim conjE)
       (rule upsertEventGuest_create_effect [OF user found owner]; assumption)
  have D: "(\<forall>raw input i g. upsertEventGuest_schema rt raw = Inr input
              \<and> raw ''eventId'' = Some eid \<and> raw ''id'' = Some i \<and> i \<noteq> []
              \<and> first (select_from_where (\<lambda>g. guest_id g = i) (EventGuests db)) = Some g
              \<and> guest_eventId g \<noteq> eid
            \<longrightarrow> upsertEventGuest rt raw ctx db = (Inl FORBIDDEN, db))"
    by (intro allI impI, elim conjE)
       (rule upsertEventGuest_refused [OF user found owner]; assumption)
  show ?thesis
    by (intro conjI) (fact A, fact B, fact C, fact D)
qed

text \<open>
  Witness for C3: alice adds a task and a guest to \<open>launch\<close>; with a generator that
  repeats the id \<open>t1\<close> (\<open>g1\<close>) the insert is refused; and she is refused when she names
  bob's task \<open>t2\<close> or guest \<open>g2\<close> under her own event.
\<close>

theorem upsert_creates_or_refuses_other_event_witness:
  "(\<exists>t db'. upsertEventTask rt0 new_task as_alice db0 = (Inr t, db')
        \<and> db' = db0\<lparr>EventTasks := EventTasks db0 @ [t]\<rparr>
        \<and> task_id t = ''u-1'' \<and> task_eventId t = ''e1''
        \<and> select_from_where (\<lambda>r. task_id r = task_id t) (EventTasks db') = [t])
   \<and> upsertEventTask (rt0\<lparr>randomUUID := ''t1''\<rparr>) new_task as_alice db0
        = (Inl INTERNAL_SERVER_ERROR, db0)
   \<and> upsertEventTask rt0 [''id'' \<mapsto> ''t2'', ''eventId'' \<mapsto> ''e1'', ''title'' \<mapsto> ''Balloons'']
        as_alice db0 = (Inl FORBIDDEN, db0)
   \<and> (\<exists>g db'. upsertEventGuest rt0 new_guest as_alice db0 = (Inr g, db')
        \<and> db' = db0\<lparr>EventGuests := EventGuests db0 @ [g]\<rparr>
        \<and> guest_id g = ''u-1'' \<and> guest_eventId g = ''e1''
        \<and> select_from_where (\<lambda>r. guest_id r = guest_id g) (EventGuests db') = [g])
   \<and> upsertEventGuest (rt0\<lparr>randomUUID := ''g1''\<rparr>) new_guest as_alice db0
        = (Inl INTERNAL_SERVER_ERROR, db0)
   \<and> upsertEventGuest rt0 [''id'' \<mapsto> ''g2'', ''eventId'' \<mapsto> ''e1'', ''name'' \<mapsto> ''Ben'']
        as_alice db0 = (Inl FORBIDDEN, db0)"
proof -
  let ?it = "\<lparr>ut_id = None, ut_eventId = ''e1'', ut_title = ''Book room'',
               ut_description = None, ut_dueDate = None, ut_status = Some ''todo'',
               ut_priority = None, ut_userId = None\<rparr>"
  let ?it2 = "\<lparr>ut_id = Some ''t2'', ut_eventId = ''e1'', ut_title = ''Balloons'',
                ut_description = None, ut_dueDate = None, ut_status = Some ''todo'',
                ut_priority = None, ut_userId = None\<rparr>"
  let ?ig = "\<lparr>ug_id = None, ug_eventId = ''e1'', ug_name = ''Cleo'', ug_email = None,
               ug_phone = None, ug_rsvpStatus = None, ug_notes = None,
               ug_invitedAt = None, ug_respondedAt = None\<rparr>"
  let ?ig2 = "\<lparr>ug_id = Some ''g2'', ug_eventId = ''e1'', ug_name = ''Ben'', ug_email = None,
                ug_phone = None, ug_rsvpStatus = None, ug_notes = None,
                ug_invitedAt = None, ug_respondedAt = None\<rparr>"
  let ?raw_t2 = "[''id'' \<mapsto> ''t2'', ''eventId'' \<mapsto> ''e1'', ''title'' \<mapsto> ''Balloons'']"
  let ?raw_g2 = "[''id'' \<mapsto> ''g2'', ''eventId'' \<mapsto> ''e1'', ''name'' \<mapsto> ''Ben'']"
  let ?rt_t1 = "rt0\<lparr>randomUUID := ''t1''\<rparr>"
  let ?rt_g1 = "rt0\<lparr>randomUUID := ''g1''\<rparr>"
  note main = upsert_creates_or_refuses_other_event
                [OF alice_signed_in first_launch alice_owns_launch]
  have t: "randomUUID rt0 \<notin> set (map task_id (EventTasks db0))"
    "randomUUID ?rt_t1 \<in> set (map task_id (EventTasks db0))"
    by (simp_all add: fixture_defs)
  have g: "randomUUID rt0 \<notin> set (map guest_id (EventGuests db0))"
    "randomUUID ?rt_g1 \<in> set (map guest_id (EventGuests db0))"
    by (simp_all add: fixture_defs)
  have u: "randomUUID rt0 = ''u-1''"
    by (simp add: rt0_def)
  have h1: "upsertEventTask_schema rt new_task = Inr ?it
              \<and> new_task ''eventId'' = Some ''e1'' \<and> new_task ''id'' = None" for rt
    by (simp add: schema_defs new_task_def)
  have h2: "upsertEventTask_schema rt0 ?raw_t2 = Inr ?it2
              \<and> ?raw_t2 ''eventId'' = Some ''e1'' \<and> ?raw_t2 ''id'' = Some ''t2'' \<and> ''t2'' \<noteq> []
              \<and> first (select_from_where (\<lambda>t. task_id t = ''t2'') (EventTasks db0)) = Some balloons
              \<and> task_eventId balloons \<noteq> ''e1''"
    by (simp add: schema_defs fixture_defs run_defs)
  have h3: "upsertEventGuest_schema rt new_guest = Inr ?ig
              \<and> new_guest ''eventId'' = Some ''e1'' \<and> new_guest ''id'' = None" for rt
    by (simp add: schema_defs new_guest_def)
  have h4: "upsertEventGuest_schema rt0 ?raw_g2 = Inr ?ig2
              \<and> ?raw_g2 ''eventId'' = Some ''e1'' \<and> ?raw_g2 ''id'' = Some ''g2'' \<and> ''g2'' \<noteq> []
              \<and> first (select_from_where (\<lambda>g. guest_id g = ''g2'') (EventGuests db0)) = Some ben
              \<and> guest_eventId ben \<noteq> ''e1''"
    by (simp add: schema_defs fixture_defs run_defs)
  note A = main [of rt0, THEN conjunct1, rule_format, OF h1]
  note A' = main [of ?rt_t1, THEN conjunct1, rule_format, OF h1]
  note B = main [of rt0, THEN conjunct2, THEN conjunct1, rule_format, OF h2]
  note C = main [of rt0, THEN conjunct2, THEN conjunct2, THEN conjunct1, rule_format, OF h3]
  note C' = main [of ?rt_g1, THEN conjunct2, THEN conjunct2, THEN conjunct1, rule_format, OF h3]
  note D = main [of rt0, THEN conjunct2, THEN conjunct2, THEN conjunct2, rule_format, OF h4]
  obtain t db' where a1: "upsertEventTask rt0 new_task as_alice db0 = (Inr t, db')"
    using A [THEN conjunct2, THEN conjunct1, rule_format, OF t(1)] by (elim exE)
  note a2 = A [THEN conjunct1, rule_format, OF a1, unfolded u]
  have a: "\<exists>t db'. upsertEventTask rt0 new_task as_alice db0 = (Inr t, db')
        \<and> db' = db0\<lparr>EventTasks := EventTasks db0 @ [t]\<rparr>
        \<and> task_id t = ''u-1'' \<and> task_eventId t = ''e1''
        \<and> select_from_where (\<lambda>r. task_id r = task_id t) (EventTasks db') = [t]"
    using a1 a2 by (intro exI [of _ t] exI [of _ db']) (elim conjE, intro conjI; assumption)
  note a' = A' [THEN conjunct2, THEN conjunct2, rule_format, OF t(2)]
  obtain g' db'' where c1: "upsertEventGuest rt0 new_guest as_alice db0 = (Inr g', db'')"
    using C [THEN conjunct2, THEN conjunct1, rule_format, OF g(1)] by (elim exE)
  note c2 = C [THEN conjunct1, rule_format, OF c1, unfolded u]
  have c: "\<exists>g db'. upsertEventGuest rt0 new_guest as_alice db0 = (Inr g, db')
        \<and> db' = db0\<lparr>EventGuests := EventGuests db0 @ [g]\<rparr>
        \<and> guest_id g = ''u-1'' \<and> guest_eventId g = ''e1''
        \<and> select_from_where (\<lambda>r. guest_id r = guest_id g) (EventGuests db') = [g]"
    using c1 c2 by (intro exI [of _ g'] exI [of _ db'']) (elim conjE, intro conjI; assumption)
  note c' = C' [THEN conjunct2, THEN conjunct2, rule_format, OF g(2)]
  show ?thesis
    by (intro conjI) (fact a, fact a', fact B, fact c, fact c', fact D)
qed

lemmas merge_defs = spread_task_def set_task_def spread_guest_def set_guest_def
  spread_event_def set_event_def spread_col_def set_col_def override_def
  when_defined_def assigned_def upsertEventTask_updates_def upsertEventGuest_updates_def
  updateEvent_updates_def

lemma upsertEventTask_schema_members:
  assumes "upsertEventTask_schema rt raw = Inr input"
  shows "raw ''title'' = Some (ut_title input)" "ut_description input = raw ''description''"
    "ut_dueDate input = raw ''dueDate''" "ut_priority input = raw ''priority''"
    "ut_userId input = raw ''userId''"
    "ut_status input = Some (z_default ''todo'' (raw ''status''))"
    "z_optional (z_datetime rt) (raw ''dueDate'')"
  using assms
  by (auto simp: upsertEventTask_schema_def Let_def split: option.splits if_splits)

lemma upsertEventGuest_schema_members:
  assumes "upsertEventGuest_schema rt raw = Inr input"
  shows "raw ''name'' = Some (ug_name input)" "ug_email input = raw ''email''"
    "ug_phone input = raw ''phone''" "ug_rsvpStatus input = raw ''rsvpStatus''"
    "ug_notes input = raw ''notes''" "ug_invitedAt input = raw ''invitedAt''"
    "ug_respondedAt input = raw ''respondedAt''"
    "z_optional (z_datetime rt) (raw ''invitedAt'')"
    "z_optional (z_datetime rt) (raw ''respondedAt'')"
  using assms
  by (auto simp: upsertEventGuest_schema_def Let_def split: option.splits if_splits)

lemma spread_col_assigned: "spread_col old (assigned v) = v"
  by (cases v) (simp_all add: spread_col_def assigned_def)

lemma set_col_assigned: "set_col (assigned v) old = (case v of None \<Rightarrow> old | Some x \<Rightarrow> Some x)"
  by (cases v) (simp_all add: set_col_def assigned_def)

lemma upsertEventTask_update_effect:
  assumes user: "locals_user ctx = Some u"
    and found: "first (select_from_where (\<lambda>e. event_id e = eid) (Events db)) = Some ev"
    and owner: "event_ownerUserId ev = user_id u"
    and valid: "upsertEventTask_schema rt raw = Inr input"
    and eventId: "raw ''eventId'' = Some eid"
    and id: "raw ''id'' = Some i" and nonempty: "i \<noteq> []"
    and existing: "first (select_from_where (\<lambda>t. task_id t = i) (EventTasks db)) = Some t"
    and same_event: "task_eventId t = eid"
  shows "\<exists>r s db'. upsertEventTask rt raw ctx db = (Inr r, db')
           \<and> first (select_from_where (\<lambda>t. task_id t = i) (EventTasks db')) = Some s
           \<and> task_id r = task_id t \<and> task_eventId r = task_eventId t
           \<and> task_createdAt r = task_createdAt t \<and> task_updatedAt r = now rt
           \<and> raw ''title'' = Some (task_title r)
           \<and> task_description r = raw ''description''
           \<and> task_dueDate r = map_option (new_Date rt) (raw ''dueDate'')
           \<and> task_priority r = raw ''priority''
           \<and> task_userId r = raw ''userId''
           \<and> (\<forall>x. raw ''status'' = Some x \<longrightarrow> task_status r = Some x)
           \<and> task_id s = task_id t \<and> task_eventId s = task_eventId t
           \<and> task_createdAt s = task_createdAt t \<and> task_updatedAt s = now rt
           \<and> raw ''title'' = Some (task_title s)
           \<and> task_description s
               = (case raw ''description'' of None \<Rightarrow> task_description t | Some x \<Rightarrow> Some x)
           \<and> task_dueDate s
               = (case raw ''dueDate'' of None \<Rightarrow> task_dueDate t | Some x \<Rightarrow> Some (new_Date rt x))
           \<and> task_priority s
               = (case raw ''priority'' of None \<Rightarrow> task_priority t | Some x \<Rightarrow> Some x)
           \<and> task_userId s
               = (case raw ''userId'' of None \<Rightarrow> task_userId t | Some x \<Rightarrow> Some x)
           \<and> (\<forall>x. raw ''status'' = Some x \<longrightarrow> task_status s = Some x)"
proof -
  let ?u = "upsertEventTask_updates rt input t"
  let ?r = "spread_task t ?u"
  let ?s = "set_task ?u t"
  let ?db = "db\<lparr>EventTasks := update_set_where (set_task ?u) (\<lambda>t. task_id t = i) (EventTasks db)\<rparr>"
  note m = upsertEventTask_schema_members [OF valid]
  have due: "parseOptionalDate rt (raw ''dueDate'') = map_option (new_Date rt) (raw ''dueDate'')"
    by (rule parseOptionalDate_valid [OF m(7)])
  have run: "upsertEventTask rt raw ctx db = (Inr ?r, ?db)"
    using upsertEventTask_existing [OF user found owner valid eventId id nonempty existing]
      same_event by simp
  have keeps: "task_id (set_task ?u x) = task_id x" for x
    by (simp add: set_task_def)
  have "first (select_from_where (\<lambda>t. task_id t = i) (EventTasks ?db))
          = map_option (set_task ?u) (first (select_from_where (\<lambda>t. task_id t = i) (EventTasks db)))"
    by (simp add: first_select_update keeps)
  then have stored: "first (select_from_where (\<lambda>t. task_id t = i) (EventTasks ?db)) = Some ?s"
    by (simp add: existing)
  have r: "task_id ?r = task_id t" "task_eventId ?r = task_eventId t"
    "task_createdAt ?r = task_createdAt t" "task_updatedAt ?r = now rt"
    "raw ''title'' = Some (task_title ?r)"
    "task_description ?r = raw ''description''"
    "task_dueDate ?r = map_option (new_Date rt) (raw ''dueDate'')"
    "task_priority ?r = raw ''priority''"
    "task_userId ?r = raw ''userId''"
    "\<forall>x. raw ''status'' = Some x \<longrightarrow> task_status ?r = Some x"
    by (simp_all add: spread_task_def upsertEventTask_updates_def override_def
        spread_col_assigned due m nullish_def z_default_def)
  have s: "task_id ?s = task_id t" "task_eventId ?s = task_eventId t"
    "task_createdAt ?s = task_createdAt t" "task_updatedAt ?s = now rt"
    "raw ''title'' = Some (task_title ?s)"
    "task_description ?s
       = (case raw ''description'' of None \<Rightarrow> task_description t | Some x \<Rightarrow> Some x)"
    "task_dueDate ?s
       = (case raw ''dueDate'' of None \<Rightarrow> task_dueDate t | Some x \<Rightarrow> Some (new_Date rt x))"
    "task_priority ?s
       = (case raw ''priority'' of None \<Rightarrow> task_priority t | Some x \<Rightarrow> Some x)"
    "task_userId ?s
       = (case raw ''userId'' of None \<Rightarrow> task_userId t | Some x \<Rightarrow> Some x)"
    "\<forall>x. raw ''status'' = Some x \<longrightarrow> task_status ?s = Some x"
    by (simp_all add: set_task_def upsertEventTask_updates_def override_def
        set_col_assigned due m nullish_def z_default_def split: option.splits)
  show ?thesis
    using run stored r s
    by (intro exI [of _ ?r] exI [of _ ?s] exI [of _ ?db] conjI) assumption+
qed

lemma upsertEventGuest_update_effect:
  assumes user: "locals_user ctx = Some u"
    and found: "first (select_from_where (\<lambda>e. event_id e = eid) (Events db)) = Some ev"
    and owner: "event_ownerUserId ev = user_id u"
    and valid: "upsertEventGuest_schema rt raw = Inr input"
    and eventId: "raw ''eventId'' = Some eid"
    and id: "raw ''id'' = Some i" and nonempty: "i \<noteq> []"
    and existing: "first (select_from_where (\<lambda>g. guest_id g = i) (EventGuests db)) = Some g"
    and same_event: "guest_eventId g = eid"
  shows "\<exists>r s db'. upsertEventGuest rt raw ctx db = (Inr r, db')
           \<and> first (select_from_where (\<lambda>g. guest_id g = i) (EventGuests db')) = Some s
           \<and> guest_id r = guest_id g \<and> guest_eventId r = guest_eventId g
           \<and> guest_createdAt r = guest_createdAt g
           \<and> raw ''name'' = Some (guest_name r)
           \<and> guest_email r = raw ''email''
           \<and> guest_phone r = raw ''phone''
           \<and> guest_rsvpStatus r = raw ''rsvpStatus''
           \<and> guest_notes r = raw ''notes''
           \<and> guest_invitedAt r = map_option (new_Date rt) (raw ''invitedAt'')
           \<and> guest_respondedAt r = map_option (new_Date rt) (raw ''respondedAt'')
           \<and> guest_id s = guest_id g \<and> guest_eventId s = guest_eventId g
           \<and> guest_createdAt s = guest_createdAt g
           \<and> raw ''name'' = Some (guest_name s)
           \<and> guest_email s = (case raw ''email'' of None \<Rightarrow> guest_email g | Some x \<Rightarrow> Some x)
           \<and> guest_phone s = (case raw ''phone'' of None \<Rightarrow> guest_phone g | Some x \<Rightarrow> Some x)
           \<and> guest_rsvpStatus s
               = (case raw ''rsvpStatus'' of None \<Rightarrow> guest_rsvpStatus g | Some x \<Rightarrow> Some x)
           \<and> guest_notes s = (case raw ''notes'' of None \<Rightarrow> guest_notes g | Some x \<Rightarrow> Some x)
           \<and> guest_invitedAt s
               = (case raw ''invitedAt'' of None \<Rightarrow> guest_invitedAt g
                  | Some x \<Rightarrow> Some (new_Date rt x))
           \<and> guest_respondedAt s
               = (case raw ''respondedAt'' of None \<Rightarrow> guest_respondedAt g
                  | Some x \<Rightarrow> Some (new_Date rt x))"
proof -
  let ?u = "upsertEventGuest_updates rt input"
  let ?r = "spread_guest g ?u"
  let ?s = "set_guest ?u g"
  let ?db = "db\<lparr>EventGuests := update_set_where (set_guest ?u) (\<lambda>g. guest_id g = i) (EventGuests db)\<rparr>"
  note m = upsertEventGuest_schema_members [OF valid]
  have dates:
    "parseOptionalDate rt (raw ''invitedAt'') = map_option (new_Date rt) (raw ''invitedAt'')"
    "parseOptionalDate rt (raw ''respondedAt'') = map_option (new_Date rt) (raw ''respondedAt'')"
    by (rule parseOptionalDate_valid [OF m(8)], rule parseOptionalDate_valid [OF m(9)])
  have run: "upsertEventGuest rt raw ctx db = (Inr ?r, ?db)"
    using upsertEventGuest_existing [OF user found owner valid eventId id nonempty existing]
      same_event by simp
  have keeps: "guest_id (set_guest ?u x) = guest_id x" for x
    by (simp add: set_guest_def)
  have "first (select_from_where (\<lambda>g. guest_id g = i) (EventGuests ?db))
          = map_option (set_guest ?u) (first (select_from_where (\<lambda>g. guest_id g = i) (EventGuests db)))"
    by (simp add: first_select_update keeps)
  then have stored: "first (select_from_where (\<lambda>g. guest_id g = i) (EventGuests ?db)) = Some ?s"
    by (simp add: existing)
  have r: "guest_id ?r = guest_id g" "guest_eventId ?r = guest_eventId g"
    "guest_createdAt ?r = guest_createdAt g"
    "raw ''name'' = Some (guest_name ?r)"
    "guest_email ?r = raw ''email''"
    "guest_phone ?r = raw ''phone''"
    "guest_rsvpStatus ?r = raw ''rsvpStatus''"
    "guest_notes ?r = raw ''notes''"
    "guest_invitedAt ?r = map_option (new_Date rt) (raw ''invitedAt'')"
    "guest_respondedAt ?r = map_option (new_Date rt) (raw ''respondedAt'')"
    by (simp_all add: spread_guest_def upsertEventGuest_updates_def override_def
        spread_col_assigned dates m)
  have s: "guest_id ?s = guest_id g" "guest_eventId ?s = guest_eventId g"
    "guest_createdAt ?s = guest_createdAt g"
    "raw ''name'' = Some (guest_name ?s)"
    "guest_email ?s = (case raw ''email'' of None \<Rightarrow> guest_email g | Some x \<Rightarrow> Some x)"
    "guest_phone ?s = (case raw ''phone'' of None \<Rightarrow> guest_phone g | Some x \<Rightarrow> Some x)"
    "guest_rsvpStatus ?s
       = (case raw ''rsvpStatus'' of None \<Rightarrow> guest_rsvpStatus g | Some x \<Rightarrow> Some x)"
    "guest_notes ?s = (case raw ''notes'' of None \<Rightarrow> guest_notes g | Some x \<Rightarrow> Some x)"
    "guest_invitedAt ?s
       = (case raw ''invitedAt'' of None \<Rightarrow> guest_invitedAt g
          | Some x \<Rightarrow> Some (new_Date rt x))"
    "guest_respondedAt ?s
       = (case raw ''respondedAt'' of None \<Rightarrow> guest_respondedAt g
          | Some x \<Rightarrow> Some (new_Date rt x))"
    by (simp_all add: set_guest_def upsertEventGuest_updates_def override_def
        set_col_assigned dates m split: option.splits)
  show ?thesis
    using run stored r s
    by (intro exI [of _ ?r] exI [of _ ?s] exI [of _ ?db] conjI) assumption+
qed

text \<open>
  C4 says that an update of an existing task that supplies no status keeps the stored
  status. The handler writes \<^verbatim>\<open>status: input.status ?? existing.status\<close>, but the
  schema declares \<^verbatim>\<open>status: z.enum(TASK_STATUSES).default("todo")\<close>, so the handler
  never sees an undefined status and the fallback never applies. Evaluated on the
  store \<open>db0\<close>: the task \<open>cake\<close> is \<open>done\<close>; alice updates it with its id, event and title
  and no status; the returned task and the stored row are \<open>todo\<close>.
\<close>

theorem upsertEventTask_omitted_status_is_reset:
  "task_status cake = Some ''done''
   \<and> upsertEventTask rt0 [''id'' \<mapsto> ''t1'', ''eventId'' \<mapsto> ''e1'', ''title'' \<mapsto> ''Order cake'']
        as_alice db0
       = (Inr (cake\<lparr>task_description := None, task_status := Some ''todo'',
                     task_priority := None, task_updatedAt := 1000\<rparr>),
          db0\<lparr>EventTasks := [cake\<lparr>task_status := Some ''todo'', task_updatedAt := 1000\<rparr>,
                              balloons]\<rparr>)"
proof -
  have valid: "upsertEventTask_schema rt0
                 [''id'' \<mapsto> ''t1'', ''eventId'' \<mapsto> ''e1'', ''title'' \<mapsto> ''Order cake'']
              = Inr \<lparr>ut_id = Some ''t1'', ut_eventId = ''e1'', ut_title = ''Order cake'',
                     ut_description = None, ut_dueDate = None, ut_status = Some ''todo'',
                     ut_priority = None, ut_userId = None\<rparr>"
    by (simp add: schema_defs)
  have run: "upsertEventTask rt0 [''id'' \<mapsto> ''t1'', ''eventId'' \<mapsto> ''e1'', ''title'' \<mapsto> ''Order cake''] as_alice db0
               = upsertEventTask_handler rt0 \<lparr>ut_id = Some ''t1'', ut_eventId = ''e1'', ut_title = ''Order cake'',
                     ut_description = None, ut_dueDate = None, ut_status = Some ''todo'',
                     ut_priority = None, ut_userId = None\<rparr> as_alice db0"
    by (simp add: upsertEventTask_def defineAction_accepted valid)
  show ?thesis
    unfolding run
    by (simp add: upsertEventTask_handler_def merge_defs fixture_defs run_defs)
qed

text \<open>
  C10 says that an update of an existing task or guest replaces every updatable column
  by the input's member, so that an optional column omitted from the input is
  overwritten by the empty value and only \<open>id\<close>, \<open>eventId\<close> and \<open>createdAt\<close> survive.
  The handler builds \<^verbatim>\<open>updates\<close> with every column, returns
  \<^verbatim>\<open>{ ...existing, ...updates }\<close> and passes the same object to \<^verbatim>\<open>set\<close>; but
  \<^verbatim>\<open>set\<close> skips the members that are undefined, so the omitted columns are never
  written and the record returned is not the row stored. Evaluated on \<open>db0\<close>: the task
  \<open>cake\<close> has a description and a priority; alice updates it with an input that has
  neither; the returned task has both empty, the stored row keeps both, and only
  \<open>updatedAt\<close> moves.
\<close>

theorem upsertEventTask_omitted_columns_stay_stored:
  "task_description cake = Some ''chocolate'' \<and> task_priority cake = Some ''high''
   \<and> snd (upsertEventTask rt0
             [''id'' \<mapsto> ''t1'', ''eventId'' \<mapsto> ''e1'', ''title'' \<mapsto> ''Order cake'',
              ''status'' \<mapsto> ''done''] as_alice db0)
       = db0\<lparr>EventTasks := [cake\<lparr>task_updatedAt := 1000\<rparr>, balloons]\<rparr>
   \<and> fst (upsertEventTask rt0
             [''id'' \<mapsto> ''t1'', ''eventId'' \<mapsto> ''e1'', ''title'' \<mapsto> ''Order cake'',
              ''status'' \<mapsto> ''done''] as_alice db0)
       = Inr (cake\<lparr>task_description := None, task_priority := None, task_updatedAt := 1000\<rparr>)"
proof -
  have valid: "upsertEventTask_schema rt0
                 [''id'' \<mapsto> ''t1'', ''eventId'' \<mapsto> ''e1'', ''title'' \<mapsto> ''Order cake'',
                  ''status'' \<mapsto> ''done'']
              = Inr \<lparr>ut_id = Some ''t1'', ut_eventId = ''e1'', ut_title = ''Order cake'',
                     ut_description = None, ut_dueDate = None, ut_status = Some ''done'',
                     ut_priority = None, ut_userId = None\<rparr>"
    by (simp add: schema_defs)
  have run: "upsertEventTask rt0 [''id'' \<mapsto> ''t1'', ''eventId'' \<mapsto> ''e1'', ''title'' \<mapsto> ''Order cake'',
                  ''status'' \<mapsto> ''done''] as_alice db0
               = upsertEventTask_handler rt0 \<lparr>ut_id = Some ''t1'', ut_eventId = ''e1'', ut_title = ''Order cake'',
                     ut_description = None, ut_dueDate = None, ut_status = Some ''done'',
                     ut_priority = None, ut_userId = None\<rparr> as_alice db0"
    by (simp add: upsertEventTask_def defineAction_accepted valid)
  show ?thesis
    unfolding run
    by (simp add: upsertEventTask_handler_def merge_defs fixture_defs run_defs)
qed

text \<open>
  The same for every accepted input. Let the signed-in caller own the event \<open>eid\<close>, and
  let the input name \<open>eid\<close> and the (non-empty) id of a stored task \<open>t\<close> of that event.
  Then \<open>upsertEventTask\<close> succeeds, returning \<open>r\<close> and leaving \<open>s\<close> stored under the id:
  \<^item> both keep \<open>id\<close>, \<open>eventId\<close> and \<open>createdAt\<close> of \<open>t\<close>, have the input's title, have
    \<open>updatedAt\<close> set to the clock reading, and have the supplied status when one is
    supplied;
  \<^item> in the returned \<open>r\<close> each of \<open>description\<close>, \<open>dueDate\<close>, \<open>priority\<close>, \<open>userId\<close> is the
    input's member, undefined when the member is omitted;
  \<^item> in the stored \<open>s\<close> each of these columns is the input's member when it is
    supplied and the value of \<open>t\<close> when it is omitted.

  Likewise for \<open>upsertEventGuest\<close> with \<open>name\<close> in the place of the title and \<open>email\<close>,
  \<open>phone\<close>, \<open>rsvpStatus\<close>, \<open>notes\<close>, \<open>invitedAt\<close>, \<open>respondedAt\<close> as the optional columns.
\<close>

lemma upsert_existing_row_effect:
  assumes user: "locals_user ctx = Some u"
    and found: "first (select_from_where (\<lambda>e. event_id e = eid) (Events db)) = Some ev"
    and owner: "event_ownerUserId ev = user_id u"
  shows "(\<forall>raw input i t. upsertEventTask_schema rt raw = Inr input
              \<and> raw ''eventId'' = Some eid \<and> raw ''id'' = Some i \<and> i \<noteq> []
              \<and> first (select_from_where (\<lambda>t. task_id t = i) (EventTasks db)) = Some t
              \<and> task_eventId t = eid
            \<longrightarrow> (\<exists>r s db'. upsertEventTask rt raw ctx db = (Inr r, db')
                   \<and> first (select_from_where (\<lambda>t. task_id t = i) (EventTasks db')) = Some s
                   \<and> task_id r = task_id t \<and> task_eventId r = task_eventId t
                   \<and> task_createdAt r = task_createdAt t \<and> task_updatedAt r = now rt
                   \<and> raw ''title'' = Some (task_title r)
                   \<and> task_description r = raw ''description''
                   \<and> task_dueDate r = map_option (new_Date rt) (raw ''dueDate'')
                   \<and> task_priority r = raw ''priority''
                   \<and> task_userId r = raw ''userId''
                   \<and> (\<forall>x. raw ''status'' = Some x \<longrightarrow> task_status r = Some x)
                   \<and> task_id s = task_id t \<and> task_eventId s = task_eventId t
                   \<and> task_createdAt s = task_createdAt t \<and> task_updatedAt s = now rt
                   \<and> raw ''title'' = Some (task_title s)
                   \<and> task_description s
                       = (case raw ''description'' of None \<Rightarrow> task_description t
                          | Some x \<Rightarrow> Some x)
                   \<and> task_dueDate s
                       = (case raw ''dueDate'' of None \<Rightarrow> task_dueDate t
                          | Some x \<Rightarrow> Some (new_Date rt x))
                   \<and> task_priority s
                       = (case raw ''priority'' of None \<Rightarrow> task_priority t | Some x \<Rightarrow> Some x)
                   \<and> task_userId s
                       = (case raw ''userId'' of None \<Rightarrow> task_userId t | Some x \<Rightarrow> Some x)
                   \<and> (\<forall>x. raw ''status'' = Some x \<longrightarrow> task_status s = Some x)))
       \<and> (\<forall>raw input i g. upsertEventGuest_schema rt raw = Inr input
              \<and> raw ''eventId'' = Some eid \<and> raw ''id'' = Some i \<and> i \<noteq> []
              \<and> first (select_from_where (\<lambda>g. guest_id g = i) (EventGuests db)) = Some g
              \<and> guest_eventId g = eid
            \<longrightarrow> (\<exists>r s db'. upsertEventGuest rt raw ctx db = (Inr r, db')
                   \<and> first (select_from_where (\<lambda>g. guest_id g = i) (EventGuests db')) = Some s
                   \<and> guest_id r = guest_id g \<and> guest_eventId r = guest_eventId g
                   \<and> guest_createdAt r = guest_createdAt g
                   \<and> raw ''name'' = Some (guest_name r)
                   \<and> guest_email r = raw ''email''
                   \<and> guest_phone r = raw ''phone''
                   \<and> guest_rsvpStatus r = raw ''rsvpStatus''
                   \<and> guest_notes r = raw ''notes''
                   \<and> guest_invitedAt r = map_option (new_Date rt) (raw ''invitedAt'')
                   \<and> guest_respondedAt r = map_option (new_Date rt) (raw ''respondedAt'')
                   \<and> guest_id s = guest_id g \<and> guest_eventId s = guest_eventId g
                   \<and> guest_createdAt s = guest_createdAt g
                   \<and> raw ''name'' = Some (guest_name s)
                   \<and> guest_email s
                       = (case raw ''email'' of None \<Rightarrow> guest_email g | Some x \<Rightarrow> Some x)
                   \<and> guest_phone s
                       = (case raw ''phone'' of None \<Rightarrow> guest_phone g | Some x \<Rightarrow> Some x)
                   \<and> guest_rsvpStatus s
                       = (case raw ''rsvpStatus'' of None \<Rightarrow> guest_rsvpStatus g
                          | Some x \<Rightarrow> Some x)
                   \<and> guest_notes s
                       = (case raw ''notes'' of None \<Rightarrow> guest_notes g | Some x \<Rightarrow> Some x)
                   \<and> guest_invitedAt s
                       = (case raw ''invitedAt'' of None \<Rightarrow> guest_invitedAt g
                          | Some x \<Rightarrow> Some (new_Date rt x))
                   \<and> guest_respondedAt s
                       = (case raw ''respondedAt'' of None \<Rightarrow> guest_respondedAt g
                          | Some x \<Rightarrow> Some (new_Date rt x))))"
proof (intro conjI allI impI)
  fix raw input i t
  assume "upsertEventTask_schema rt raw = Inr input
              \<and> raw ''eventId'' = Some eid \<and> raw ''id'' = Some i \<and> i \<noteq> []
              \<and> first (select_from_where (\<lambda>t. task_id t = i) (EventTasks db)) = Some t
              \<and> task_eventId t = eid"
  then have h: "upsertEventTask_schema rt raw = Inr input" "raw ''eventId'' = Some eid"
    "raw ''id'' = Some i" "i \<noteq> []"
    "first (select_from_where (\<lambda>t. task_id t = i) (EventTasks db)) = Some t"
    "task_eventId t = eid"
    by simp_all
  show "\<exists>r s db'. upsertEventTask rt raw ctx db = (Inr r, db')
                   \<and> first (select_from_where (\<lambda>t. task_id t = i) (EventTasks db')) = Some s
                   \<and> task_id r = task_id t \<and> task_eventId r = task_eventId t
                   \<and> task_createdAt r = task_createdAt t \<and> task_updatedAt r = now rt
                   \<and> raw ''title'' = Some (task_title r)
                   \<and> task_description r = raw ''description''
                   \<and> task_dueDate r = map_option (new_Date rt) (raw ''dueDate'')
                   \<and> task_priority r = raw ''priority''
                   \<and> task_userId r = raw ''userId''
                   \<and> (\<forall>x. raw ''status'' = Some x \<longrightarrow> task_status r = Some x)
                   \<and> task_id s = task_id t \<and> task_eventId s = task_eventId t
                   \<and> task_createdAt s = task_createdAt t \<and> task_updatedAt s = now rt
                   \<and> raw ''title'' = Some (task_title s)
                   \<and> task_description s
                       = (case raw ''description'' of None \<Rightarrow> task_description t
                          | Some x \<Rightarrow> Some x)
                   \<and> task_dueDate s
                       = (case raw ''dueDate'' of None \<Rightarrow> task_dueDate t
                          | Some x \<Rightarrow> Some (new_Date rt x))
                   \<and> task_priority s
                       = (case raw ''priority'' of None \<Rightarrow> task_priority t | Some x \<Rightarrow> Some x)
                   \<and> task_userId s
                       = (case raw ''userId'' of None \<Rightarrow> task_userId t | Some x \<Rightarrow> Some x)
                   \<and> (\<forall>x. raw ''status'' = Some x \<longrightarrow> task_status s = Some x)"
    by (rule upsertEventTask_update_effect [OF user found owner h])
next
  fix raw input i g
  assume "upsertEventGuest_schema rt raw = Inr input
              \<and> raw ''eventId'' = Some eid \<and> raw ''id'' = Some i \<and> i \<noteq> []
              \<and> first (select_from_where (\<lambda>g. guest_id g = i) (EventGuests db)) = Some g
              \<and> guest_eventId g = eid"
  then have h: "upsertEventGuest_schema rt raw = Inr input" "raw ''eventId'' = Some eid"
    "raw ''id'' = Some i" "i \<noteq> []"
    "first (select_from_where (\<lambda>g. guest_id g = i) (EventGuests db)) = Some g"
    "guest_eventId g = eid"
    by simp_all
  show "\<exists>r s db'. upsertEventGuest rt raw ctx db = (Inr r, db')
                   \<and> first (select_from_where (\<lambda>g. guest_id g = i) (EventGuests db')) = Some s
                   \<and> guest_id r = guest_id g \<and> guest_eventId r = guest_eventId g
                   \<and> guest_createdAt r = guest_createdAt g
                   \<and> raw ''name'' = Some (guest_name r)
                   \<and> guest_email r = raw ''email''
                   \<and> guest_phone r = raw ''phone''
                   \<and> guest_rsvpStatus r = raw ''rsvpStatus''
                   \<and> guest_notes r = raw ''notes''
                   \<and> guest_invitedAt r = map_option (new_Date rt) (raw ''invitedAt'')
                   \<and> guest_respondedAt r = map_option (new_Date rt) (raw ''respondedAt'')
                   \<and> guest_id s = guest_id g \<and> guest_eventId s = guest_eventId g
                   \<and> guest_createdAt s = guest_createdAt g
                   \<and> raw ''name'' = Some (guest_name s)
                   \<and> guest_email s
                       = (case raw ''email'' of None \<Rightarrow> guest_email g | Some x \<Rightarrow> Some x)
                   \<and> guest_phone s
                       = (case raw ''phone'' of None \<Rightarrow> guest_phone g | Some x \<Rightarrow> Some x)
                   \<and> guest_rsvpStatus s
                       = (case raw ''rsvpStatus'' of None \<Rightarrow> guest_rsvpStatus g
                          | Some x \<Rightarrow> Some x)
                   \<and> guest_notes s
                       = (case raw ''notes'' of None \<Rightarrow> guest_notes g | Some x \<Rightarrow> Some x)
                   \<and> guest_invitedAt s
                       = (case raw ''invitedAt'' of None \<Rightarrow> guest_invitedAt g
                          | Some x \<Rightarrow> Some (new_Date rt x))
                   \<and> guest_respondedAt s
                       = (case raw ''respondedAt'' of None \<Rightarrow> guest_respondedAt g
                          | Some x \<Rightarrow> Some (new_Date rt x))"
    by (rule upsertEventGuest_update_effect [OF user found owner h])
qed

lemma invite_dan_valid:
  "upsertEventGuest_schema rt0 invite_dan
     = Inr \<lparr>ug_id = None, ug_eventId = ''e1'', ug_name = ''Dan'', ug_email = None,
            ug_phone = None, ug_rsvpStatus = Some ''invited'', ug_notes = None,
            ug_invitedAt = None, ug_respondedAt = None\<rparr>"
  by (simp add: schema_defs invite_dan_def)

lemma invite_dan_run:
  "upsertEventGuest rt0 invite_dan as_alice db0 = (Inr dan, db0\<lparr>EventGuests := [ana, ben, dan]\<rparr>)"
proof -
  have run: "upsertEventGuest rt0 invite_dan as_alice db0
               = upsertEventGuest_handler rt0
                   \<lparr>ug_id = None, ug_eventId = ''e1'', ug_name = ''Dan'', ug_email = None,
                    ug_phone = None, ug_rsvpStatus = Some ''invited'', ug_notes = None,
                    ug_invitedAt = None, ug_respondedAt = None\<rparr> as_alice db0"
    by (simp add: upsertEventGuest_def defineAction_accepted invite_dan_valid)
  show ?thesis
    unfolding run
    by (simp add: upsertEventGuest_handler_def dan_def fixture_defs run_defs)
qed

text \<open>
  Counterexample to C9 as stated (a second call carrying the guest's id and
  \<^verbatim>\<open>rsvpStatus: "going"\<close> succeeds): alice invites Dan, who gets the id \<open>u-1\<close>; the call
  \<^verbatim>\<open>upsertEventGuest({ id, rsvpStatus: "going" })\<close> is rejected by the schema, which
  requires \<open>eventId\<close> and \<open>name\<close> on every call.
\<close>

theorem rsvp_update_counterexample:
  "upsertEventGuest rt0 invite_dan as_alice db0 = (Inr dan, db0\<lparr>EventGuests := [ana, ben, dan]\<rparr>)
   \<and> guest_id dan = ''u-1''
   \<and> upsertEventGuest rt0 [''id'' \<mapsto> ''u-1'', ''rsvpStatus'' \<mapsto> ''going''] as_alice
        (db0\<lparr>EventGuests := [ana, ben, dan]\<rparr>)
       = (Inl BAD_REQUEST, db0\<lparr>EventGuests := [ana, ben, dan]\<rparr>)"
proof -
  have rejected: "upsertEventGuest_schema rt0 [''id'' \<mapsto> ''u-1'', ''rsvpStatus'' \<mapsto> ''going'']
          = Inl BAD_REQUEST"
    by (simp add: upsertEventGuest_schema_def)
  have second: "upsertEventGuest rt0 [''id'' \<mapsto> ''u-1'', ''rsvpStatus'' \<mapsto> ''going''] as_alice
        (db0\<lparr>EventGuests := [ana, ben, dan]\<rparr>)
       = (Inl BAD_REQUEST, db0\<lparr>EventGuests := [ana, ben, dan]\<rparr>)"
    by (simp add: upsertEventGuest_def defineAction_rejected rejected)
  have "guest_id dan = ''u-1''"
    by (simp add: dan_def)
  with invite_dan_run second show ?thesis
    by (intro conjI)
qed

lemma first_select_append_fresh:
  "x \<notin> f ` set rows \<Longrightarrow> f new = x \<Longrightarrow>
   first (select_from_where (\<lambda>r. f r = x) (rows @ [new])) = Some new"
  by (simp add: select_append_fresh first_def)

text \<open>
  C9, as the code has it. The signed-in owner of \<open>eid\<close> creates a guest with
  \<^verbatim>\<open>rsvpStatus: "invited"\<close> (an accepted input without id), and the generated id is
  non-empty and new to the table. A later accepted call that carries that id, the same
  \<open>eventId\<close>, a name and \<^verbatim>\<open>rsvpStatus: "going"\<close> succeeds; the returned guest and the
  stored row have the same id as the created one, \<open>rsvpStatus\<close> \<open>going\<close>, and the name
  carried by the second call, which is the first name exactly when the caller sends
  it again.
\<close>

theorem upsertEventGuest_invited_then_going:
  assumes user: "locals_user ctx = Some u"
    and found: "first (select_from_where (\<lambda>e. event_id e = eid) (Events db)) = Some ev"
    and owner: "event_ownerUserId ev = user_id u"
    and valid1: "upsertEventGuest_schema rt raw1 = Inr input1"
    and event1: "raw1 ''eventId'' = Some eid"
    and noid: "raw1 ''id'' = None"
    and invited: "raw1 ''rsvpStatus'' = Some ''invited''"
    and fresh: "randomUUID rt \<notin> guest_id ` set (EventGuests db)"
    and nonempty: "randomUUID rt \<noteq> []"
    and valid2: "upsertEventGuest_schema rt2 raw2 = Inr input2"
    and event2: "raw2 ''eventId'' = Some eid"
    and id2: "raw2 ''id'' = Some (randomUUID rt)"
    and going: "raw2 ''rsvpStatus'' = Some ''going''"
  shows "\<exists>g1 db1 g2 s2 db2.
           upsertEventGuest rt raw1 ctx db = (Inr g1, db1)
           \<and> guest_rsvpStatus g1 = Some ''invited'' \<and> raw1 ''name'' = Some (guest_name g1)
           \<and> upsertEventGuest rt2 raw2 ctx db1 = (Inr g2, db2)
           \<and> first (select_from_where (\<lambda>g. guest_id g = guest_id g1) (EventGuests db2)) = Some s2
           \<and> guest_id g2 = guest_id g1
           \<and> guest_rsvpStatus g2 = Some ''going'' \<and> guest_rsvpStatus s2 = Some ''going''
           \<and> raw2 ''name'' = Some (guest_name g2) \<and> guest_name s2 = guest_name g2
           \<and> (raw2 ''name'' = raw1 ''name'' \<longrightarrow> guest_name g2 = guest_name g1)"
proof -
  let ?g1 = "\<lparr>guest_id = randomUUID rt, guest_eventId = eid,
               guest_name = ug_name input1, guest_email = ug_email input1,
               guest_phone = ug_phone input1, guest_rsvpStatus = ug_rsvpStatus input1,
               guest_notes = ug_notes input1,
               guest_invitedAt = parseOptionalDate rt (ug_invitedAt input1),
               guest_respondedAt = parseOptionalDate rt (ug_respondedAt input1),
               guest_createdAt = now rt\<rparr>"
  let ?db1 = "db\<lparr>EventGuests := EventGuests db @ [?g1]\<rparr>"
  note m1 = upsertEventGuest_schema_members [OF valid1]
  have falsy: "\<not> truthy (raw1 ''id'')"
    by (simp add: noid truthy_def)
  have run1: "upsertEventGuest rt raw1 ctx db = (Inr ?g1, ?db1)"
    using upsertEventGuest_create [OF user found owner valid1 event1 falsy] fresh
    by (simp add: Let_def)
  have g1: "guest_rsvpStatus ?g1 = Some ''invited''" "raw1 ''name'' = Some (guest_name ?g1)"
    "guest_id ?g1 = randomUUID rt" "guest_eventId ?g1 = eid"
    by (simp_all add: m1 invited)
  have found1: "first (select_from_where (\<lambda>e. event_id e = eid) (Events ?db1)) = Some ev"
    using found by simp
  have existing: "first (select_from_where (\<lambda>g. guest_id g = randomUUID rt) (EventGuests ?db1))
                    = Some ?g1"
    using fresh by (simp add: first_select_append_fresh)
  obtain g2 s2 db2 where
    run2: "upsertEventGuest rt2 raw2 ctx ?db1 = (Inr g2, db2)"
    and stored: "first (select_from_where (\<lambda>g. guest_id g = randomUUID rt) (EventGuests db2)) = Some s2"
    and r: "guest_id g2 = guest_id ?g1" "raw2 ''name'' = Some (guest_name g2)"
      "guest_rsvpStatus g2 = raw2 ''rsvpStatus''"
    and s: "raw2 ''name'' = Some (guest_name s2)"
      "guest_rsvpStatus s2
         = (case raw2 ''rsvpStatus'' of None \<Rightarrow> guest_rsvpStatus ?g1 | Some x \<Rightarrow> Some x)"
    using upsertEventGuest_update_effect
            [OF user found1 owner valid2 event2 id2 nonempty existing g1(4)]
    by blast
  have names: "guest_name s2 = guest_name g2"
    "raw2 ''name'' = raw1 ''name'' \<longrightarrow> guest_name g2 = guest_name ?g1"
    using r(2) s(1) g1(2) by simp_all
  have rsvp: "guest_rsvpStatus g2 = Some ''going''" "guest_rsvpStatus s2 = Some ''going''"
    using r(3) s(2) going by simp_all
  have stored': "first (select_from_where (\<lambda>g. guest_id g = guest_id ?g1) (EventGuests db2)) = Some s2"
    using stored by simp
  show ?thesis
    using run1 g1(1,2) run2 stored' r(1) rsvp r(2) names
    by (intro exI [of _ ?g1] exI [of _ ?db1] exI [of _ g2] exI [of _ s2] exI [of _ db2] conjI)
       assumption+
qed

text \<open>Witness for C9: alice invites Dan, then records that he is going, sending his name again.\<close>

theorem upsertEventGuest_invited_then_going_witness:
  "\<exists>g1 db1 g2 s2 db2.
       upsertEventGuest rt0 invite_dan as_alice db0 = (Inr g1, db1)
     \<and> guest_rsvpStatus g1 = Some ''invited'' \<and> guest_name g1 = ''Dan''
     \<and> upsertEventGuest rt1 dan_goes as_alice db1 = (Inr g2, db2)
     \<and> first (select_from_where (\<lambda>g. guest_id g = guest_id g1) (EventGuests db2)) = Some s2
     \<and> guest_id g2 = guest_id g1
     \<and> guest_rsvpStatus g2 = Some ''going'' \<and> guest_rsvpStatus s2 = Some ''going''
     \<and> guest_name g2 = ''Dan'' \<and> guest_name s2 = ''Dan''"
proof -
  have valid2: "upsertEventGuest_schema rt1 dan_goes
              = Inr \<lparr>ug_id = Some ''u-1'', ug_eventId = ''e1'', ug_name = ''Dan'', ug_email = None,
                     ug_phone = None, ug_rsvpStatus = Some ''going'', ug_notes = None,
                     ug_invitedAt = None, ug_respondedAt = None\<rparr>"
    by (simp add: schema_defs dan_goes_def)
  have h: "invite_dan ''eventId'' = Some ''e1''" "invite_dan ''id'' = None"
    "invite_dan ''rsvpStatus'' = Some ''invited''" "invite_dan ''name'' = Some ''Dan''"
    "randomUUID rt0 \<notin> guest_id ` set (EventGuests db0)" "randomUUID rt0 \<noteq> []"
    "dan_goes ''eventId'' = Some ''e1''" "dan_goes ''id'' = Some (randomUUID rt0)"
    "dan_goes ''rsvpStatus'' = Some ''going''" "dan_goes ''name'' = Some ''Dan''"
    by (simp_all add: invite_dan_def dan_goes_def fixture_defs)
  obtain g1 db1 g2 s2 db2 where
    f: "upsertEventGuest rt0 invite_dan as_alice db0 = (Inr g1, db1)"
      "guest_rsvpStatus g1 = Some ''invited''" "invite_dan ''name'' = Some (guest_name g1)"
      "upsertEventGuest rt1 dan_goes as_alice db1 = (Inr g2, db2)"
      "first (select_from_where (\<lambda>g. guest_id g = guest_id g1) (EventGuests db2)) = Some s2"
      "guest_id g2 = guest_id g1"
      "guest_rsvpStatus g2 = Some ''going''" "guest_rsvpStatus s2 = Some ''going''"
      "dan_goes ''name'' = Some (guest_name g2)" "guest_name s2 = guest_name g2"
    using upsertEventGuest_invited_then_going
            [OF alice_signed_in first_launch alice_owns_launch invite_dan_valid h(1,2,3,5,6)
                valid2 h(7,8,9)]
    by blast
  have n: "guest_name g1 = ''Dan''" "guest_name g2 = ''Dan''" "guest_name s2 = ''Dan''"
    using f(3,9,10) h(4,10) by simp_all
  show ?thesis
    using f(1,2) n(1) f(4-8) n(2,3)
    by (intro exI [of _ g1] exI [of _ db1] exI [of _ g2] exI [of _ s2] exI [of _ db2] conjI)
       assumption+
qed

end
